theory Spec2Isabelle
  imports Main "HOL-Library.AList"
begin

section \<open>JavaScript values as the API client sees them\<close>

text \<open>
  The module under verification is the Zoho Books API client (OAuth token access, the
  request dispatcher \<open>zohoBooksApiCall\<close>, the resource accessors and the expense
  normalizer). Its inputs are loosely typed (\<open>any\<close>): whatever JSON the remote boundary
  delivers. The embedding therefore works on a datatype of JavaScript values.

  Two idealisations are made and kept visible:
  \<^item> a string is a list of 8-bit characters; case mapping and white space are those of
    ASCII (plus the no-break space);
  \<^item> a finite number is an exact decimal \<open>\<plusminus> s \<times> 10\<^sup>e\<close>. Rounding to IEEE binary64
    (precision, overflow to Infinity, underflow to zero) is not modelled, and the one
    arithmetic operator the module uses (a subtraction in the Profit and Loss report) is
    a parameter of the model.
\<close>

subsection \<open>Numbers\<close>

datatype jsnum =
    NaN
  | Infinity bool            \<comment> \<open>\<open>True\<close>: negative infinity\<close>
  | Fin bool nat int         \<comment> \<open>\<open>Fin neg s e\<close> is \<open>(if neg then -1 else 1) * s * 10^e\<close>; \<open>Fin True 0 e\<close> is \<open>-0\<close>\<close>

definition number_of :: "nat \<Rightarrow> jsnum" where
  "number_of n = Fin False n 0"

text \<open>ToBoolean on a number: \<open>0\<close>, \<open>-0\<close> and \<open>NaN\<close> are falsy.\<close>

fun num_truthy :: "jsnum \<Rightarrow> bool" where
  "num_truthy NaN = False"
| "num_truthy (Infinity neg) = True"
| "num_truthy (Fin neg s e) = (s \<noteq> 0)"

text \<open>The comparison \<open>x > 0\<close>.\<close>

fun num_positive :: "jsnum \<Rightarrow> bool" where
  "num_positive NaN = False"
| "num_positive (Infinity neg) = (\<not> neg)"
| "num_positive (Fin neg s e) = (\<not> neg \<and> s \<noteq> 0)"

text \<open>The comparison \<open>x < 0\<close>.\<close>

fun num_negative :: "jsnum \<Rightarrow> bool" where
  "num_negative NaN = False"
| "num_negative (Infinity neg) = neg"
| "num_negative (Fin neg s e) = (neg \<and> s \<noteq> 0)"

fun isNaN :: "jsnum \<Rightarrow> bool" where
  "isNaN NaN = True"
| "isNaN (Infinity neg) = False"
| "isNaN (Fin neg s e) = False"

text \<open>Strict equality \<open>x === k\<close> with a non-negative integer literal \<open>k\<close>.\<close>

fun num_is :: "jsnum \<Rightarrow> nat \<Rightarrow> bool" where
  "num_is NaN k = False"
| "num_is (Infinity neg) k = False"
| "num_is (Fin neg s e) k =
     (if s = 0 then k = 0
      else \<not> neg \<and> (if 0 \<le> e then s * 10 ^ nat e = k else s = k * 10 ^ nat (- e)))"

subsection \<open>Decimal digits\<close>

definition digit_char :: "nat \<Rightarrow> char" where
  "digit_char d = char_of (48 + d)"

function digits_of_nat :: "nat \<Rightarrow> string" where
  "digits_of_nat n =
     (if n < 10 then [digit_char n] else digits_of_nat (n div 10) @ [digit_char (n mod 10)])"
  by pat_completeness auto
termination
  by (relation "measure id") auto

declare digits_of_nat.simps [simp del]

definition is_digit :: "char \<Rightarrow> bool" where
  "is_digit c = (48 \<le> (of_char c :: nat) \<and> (of_char c :: nat) \<le> 57)"

definition digit_val :: "char \<Rightarrow> nat" where
  "digit_val c = of_char c - 48"

definition nat_of_digits :: "string \<Rightarrow> nat" where
  "nat_of_digits ds = foldl (\<lambda>acc c. 10 * acc + digit_val c) 0 ds"

text \<open>
  \<open>Number::toString\<close> (radix 10) of ECMAScript: with \<open>k\<close> significant digits and the
  decimal point after the \<open>n\<close>-th of them, plain notation for \<open>-7 < n < 22\<close> and
  exponential notation otherwise.
\<close>

definition finite_toString :: "nat \<Rightarrow> int \<Rightarrow> string" where
  "finite_toString s e =
     (let ds = digits_of_nat s;
          sig = rev (dropWhile (\<lambda>c. c = CHR ''0'') (rev ds));
          k = length sig;
          n = e + int (length ds)
      in if int k \<le> n \<and> n \<le> 21 then sig @ replicate (nat (n - int k)) CHR ''0''
         else if 0 < n \<and> n \<le> 21 then take (nat n) sig @ ''.'' @ drop (nat n) sig
         else if - 6 < n \<and> n \<le> 0 then ''0.'' @ replicate (nat (- n)) CHR ''0'' @ sig
         else
           (let ex = n - 1;
                exs = (if 0 \<le> ex then ''+'' else ''-'') @ digits_of_nat (nat \<bar>ex\<bar>)
            in if k = 1 then sig @ ''e'' @ exs
               else take 1 sig @ ''.'' @ drop 1 sig @ ''e'' @ exs))"

fun numToString :: "jsnum \<Rightarrow> string" where
  "numToString NaN = ''NaN''"
| "numToString (Infinity neg) = (if neg then ''-Infinity'' else ''Infinity'')"
| "numToString (Fin neg s e) =
     (if s = 0 then ''0'' else (if neg then ''-'' else '''') @ finite_toString s e)"

subsection \<open>Strings\<close>

text \<open>White space and line terminators, as \<open>String.prototype.trim\<close> and \<open>parseFloat\<close> skip them.\<close>

definition is_space :: "char \<Rightarrow> bool" where
  "is_space c = (c \<in> set [CHR 0x09, CHR 0x0A, CHR 0x0B, CHR 0x0C, CHR 0x0D, CHR 0x20, CHR 0xA0])"

definition trimStart :: "string \<Rightarrow> string" where
  "trimStart s = dropWhile is_space s"

definition trim :: "string \<Rightarrow> string" where
  "trim s = rev (dropWhile is_space (rev (dropWhile is_space s)))"

definition lower_char :: "char \<Rightarrow> char" where
  "lower_char c =
     (if 65 \<le> (of_char c :: nat) \<and> (of_char c :: nat) \<le> 90 then char_of (of_char c + (32::nat)) else c)"

definition toLowerCase :: "string \<Rightarrow> string" where
  "toLowerCase s = map lower_char s"

fun starts_with :: "string \<Rightarrow> string \<Rightarrow> bool" where
  "starts_with s [] = True"
| "starts_with [] (p # ps) = False"
| "starts_with (c # cs) (p # ps) = (c = p \<and> starts_with cs ps)"


fun join :: "string \<Rightarrow> string list \<Rightarrow> string" where
  "join sep [] = []"
| "join sep [x] = x"
| "join sep (x # y # ys) = x @ sep @ join sep (y # ys)"

subsection \<open>parseFloat\<close>

text \<open>
  \<open>parseFloat\<close> skips leading white space and reads the longest prefix that is a
  \<open>StrDecimalLiteral\<close>: an optional sign, then \<open>Infinity\<close> or decimal digits with an
  optional fraction and an optional exponent. No such prefix gives \<open>NaN\<close>.
\<close>

definition parse_exponent :: "string \<Rightarrow> int" where
  "parse_exponent r =
     (case r of
        [] \<Rightarrow> 0
      | c # r1 \<Rightarrow>
          if c = CHR ''e'' \<or> c = CHR ''E'' then
            (let neg = (r1 \<noteq> [] \<and> hd r1 = CHR ''-'');
                 r2 = (if r1 \<noteq> [] \<and> (hd r1 = CHR ''-'' \<or> hd r1 = CHR ''+'') then tl r1 else r1);
                 ds = takeWhile is_digit r2
             in if ds = [] then 0
                else if neg then - int (nat_of_digits ds) else int (nat_of_digits ds))
          else 0)"

definition parse_unsigned :: "bool \<Rightarrow> string \<Rightarrow> jsnum" where
  "parse_unsigned neg s =
     (if starts_with s ''Infinity'' then Infinity neg
      else
        (let ip = takeWhile is_digit s;
             r = dropWhile is_digit s;
             has_dot = (r \<noteq> [] \<and> hd r = CHR ''.'');
             fp = (if has_dot then takeWhile is_digit (tl r) else []);
             r' = (if has_dot then dropWhile is_digit (tl r) else r)
         in if ip = [] \<and> fp = [] then NaN
            else Fin neg (nat_of_digits (ip @ fp)) (parse_exponent r' - int (length fp))))"

definition parseFloat :: "string \<Rightarrow> jsnum" where
  "parseFloat str =
     (let s = trimStart str
      in case s of
           [] \<Rightarrow> NaN
         | c # cs \<Rightarrow>
             if c = CHR ''-'' then parse_unsigned True cs
             else if c = CHR ''+'' then parse_unsigned False cs
             else parse_unsigned False s)"

subsection \<open>Values\<close>

datatype jsval =
    JUndefined
  | JNull
  | JBool bool
  | JNum jsnum
  | JStr string
  | JArr "jsval list"
  | JObj "(string \<times> jsval) list"   \<comment> \<open>own properties, in insertion order\<close>

text \<open>
  An object is the list of its own properties. The runtime lists integer-like keys
  first; that reordering is not modelled, and no statement below depends on the order
  of the properties of an object that was spread.
\<close>

text \<open>ToBoolean: what \<open>if (v)\<close>, \<open>!v\<close>, \<open>a || b\<close> and \<open>a && b\<close> test.\<close>

fun truthy :: "jsval \<Rightarrow> bool" where
  "truthy JUndefined = False"
| "truthy JNull = False"
| "truthy (JBool b) = b"
| "truthy (JNum n) = num_truthy n"
| "truthy (JStr s) = (s \<noteq> [])"
| "truthy (JArr xs) = True"
| "truthy (JObj ps) = True"

definition js_or :: "jsval \<Rightarrow> jsval \<Rightarrow> jsval" where
  "js_or a b = (if truthy a then a else b)"

fun nullish :: "jsval \<Rightarrow> bool" where
  "nullish JUndefined = True"
| "nullish JNull = True"
| "nullish v = False"

text \<open>
  Reading a property \<open>v.k\<close> of a value that is neither \<open>null\<close> nor \<open>undefined\<close>. The
  module reads fixed property names only, none of which is \<open>length\<close>, an array index or
  a member of a built-in prototype, so a primitive or an array has no such property.
\<close>

fun get_prop :: "jsval \<Rightarrow> string \<Rightarrow> jsval" where
  "get_prop (JObj ps) k = (case map_of ps k of None \<Rightarrow> JUndefined | Some v \<Rightarrow> v)"
| "get_prop v k = JUndefined"

text \<open>Optional chaining \<open>v?.k\<close>: \<open>undefined\<close> when \<open>v\<close> is \<open>null\<close> or \<open>undefined\<close>.\<close>

definition opt_prop :: "jsval \<Rightarrow> string \<Rightarrow> jsval" where
  "opt_prop v k = (if nullish v then JUndefined else get_prop v k)"

fun isArray :: "jsval \<Rightarrow> bool" where
  "isArray (JArr xs) = True"
| "isArray v = False"

fun elements :: "jsval \<Rightarrow> jsval list" where
  "elements (JArr xs) = xs"
| "elements v = []"

fun is_number :: "jsval \<Rightarrow> bool" where
  "is_number (JNum n) = True"
| "is_number v = False"

fun the_number :: "jsval \<Rightarrow> jsnum" where
  "the_number (JNum n) = n"
| "the_number v = NaN"

text \<open>\<open>typeof v === 'object'\<close>: objects, arrays and \<open>null\<close>.\<close>

fun typeof_object :: "jsval \<Rightarrow> bool" where
  "typeof_object (JObj ps) = True"
| "typeof_object (JArr xs) = True"
| "typeof_object JNull = True"
| "typeof_object v = False"

text \<open>Strict equality with a string literal and with a non-negative integer literal.\<close>

fun is_string :: "jsval \<Rightarrow> string \<Rightarrow> bool" where
  "is_string (JStr s) t = (s = t)"
| "is_string v t = False"

fun is_nat :: "jsval \<Rightarrow> nat \<Rightarrow> bool" where
  "is_nat (JNum n) k = num_is n k"
| "is_nat v k = False"

text \<open>
  \<open>String(v)\<close>. An array is joined with commas, \<open>null\<close> and \<open>undefined\<close> elements giving
  the empty string; a plain object gives \<open>[object Object]\<close> (JSON data carries no
  \<open>toString\<close> of its own).
\<close>

fun String :: "jsval \<Rightarrow> string" where
  "String JUndefined = ''undefined''"
| "String JNull = ''null''"
| "String (JBool b) = (if b then ''true'' else ''false'')"
| "String (JNum n) = numToString n"
| "String (JStr s) = s"
| "String (JArr xs) = join '','' (map (\<lambda>x. if nullish x then [] else String x) xs)"
| "String (JObj ps) = ''[object Object]''"

text \<open>
  The object spread \<open>{...v, k: x}\<close>: the own enumerable properties of \<open>v\<close> (none for
  \<open>null\<close>, \<open>undefined\<close>, a boolean or a number; the indices for an array or a string),
  then \<open>k\<close> set to \<open>x\<close>.
\<close>

fun spread :: "jsval \<Rightarrow> (string \<times> jsval) list" where
  "spread (JObj ps) = ps"
| "spread (JArr xs) = map (\<lambda>i. (digits_of_nat i, xs ! i)) [0..<length xs]"
| "spread (JStr s) = map (\<lambda>i. (digits_of_nat i, JStr [s ! i])) [0..<length s]"
| "spread v = []"

definition set_prop :: "string \<Rightarrow> jsval \<Rightarrow> (string \<times> jsval) list \<Rightarrow> (string \<times> jsval) list" where
  "set_prop k x ps = AList.update k x ps"

subsection \<open>JSON.parse\<close>

text \<open>
  A recursive-descent reader of JSON text. \<open>None\<close> is the \<open>SyntaxError\<close> of
  \<open>JSON.parse\<close>. A \<open>\u\<close> escape above \<open>FF\<close> names a character outside the 8-bit
  strings of this model and is not read. The three readers call each other, so they
  recurse on a fuel argument; a nested value costs two units of fuel and at least one
  character, and \<open>JSON_parse\<close> starts with twice the length of the text plus two
  (lemma \<open>JSON_parse_fuel\<close> below: more fuel never changes the result).
\<close>

definition json_ws :: "char \<Rightarrow> bool" where
  "json_ws c = (c \<in> set [CHR 0x20, CHR 0x09, CHR 0x0A, CHR 0x0D])"

definition skip_ws :: "string \<Rightarrow> string" where
  "skip_ws s = dropWhile json_ws s"

definition hex_val :: "char \<Rightarrow> nat option" where
  "hex_val c =
     (let n = (of_char c :: nat)
      in if 48 \<le> n \<and> n \<le> 57 then Some (n - 48)
         else if 65 \<le> n \<and> n \<le> 70 then Some (n - 55)
         else if 97 \<le> n \<and> n \<le> 102 then Some (n - 87)
         else None)"

definition hex4 :: "string \<Rightarrow> nat option" where
  "hex4 s =
     (case map hex_val (take 4 s) of
        [Some a, Some b, Some c, Some d] \<Rightarrow> Some (((a * 16 + b) * 16 + c) * 16 + d)
      | _ \<Rightarrow> None)"

definition unescape :: "char \<Rightarrow> char option" where
  "unescape e =
     (if e = CHR 0x22 then Some (CHR 0x22)
      else if e = CHR 0x5C then Some (CHR 0x5C)
      else if e = CHR ''/'' then Some (CHR ''/'')
      else if e = CHR ''b'' then Some (CHR 0x08)
      else if e = CHR ''f'' then Some (CHR 0x0C)
      else if e = CHR ''n'' then Some (CHR 0x0A)
      else if e = CHR ''r'' then Some (CHR 0x0D)
      else if e = CHR ''t'' then Some (CHR 0x09)
      else None)"

definition cons_char :: "char \<Rightarrow> (string \<times> string) option \<Rightarrow> (string \<times> string) option" where
  "cons_char c r = (case r of None \<Rightarrow> None | Some (s, rest) \<Rightarrow> Some (c # s, rest))"

text \<open>The characters of a string literal after its opening quote, up to the closing one.\<close>

fun json_chars :: "string \<Rightarrow> (string \<times> string) option" where
  "json_chars [] = None"
| "json_chars [c] = (if c = CHR 0x22 then Some ([], []) else None)"
| "json_chars (c # e # cs) =
     (if c = CHR 0x22 then Some ([], e # cs)
      else if c = CHR 0x5C then
        (if e = CHR ''u'' then
           (case hex4 cs of
              None \<Rightarrow> None
            | Some n \<Rightarrow> if n < 256 then cons_char (char_of n) (json_chars (drop 4 cs)) else None)
         else
           (case unescape e of
              None \<Rightarrow> None
            | Some ch \<Rightarrow> cons_char ch (json_chars cs)))
      else if (of_char c :: nat) < 32 then None
      else cons_char c (json_chars (e # cs)))"

definition next_is :: "char \<Rightarrow> string \<Rightarrow> bool" where
  "next_is c s = (s \<noteq> [] \<and> hd s = c)"

text \<open>
  A JSON number: \<open>-? (0 | [1-9][0-9]*) (. [0-9]+)? ([eE] [+-]? [0-9]+)?\<close>, read part by
  part; each part returns what it read and the rest of the text.
\<close>

definition json_int :: "string \<Rightarrow> (string \<times> string) option" where
  "json_int s =
     (let ip = takeWhile is_digit s
      in if ip = [] \<or> (1 < length ip \<and> hd ip = CHR ''0'') then None
         else Some (ip, dropWhile is_digit s))"

definition json_frac :: "string \<Rightarrow> (string \<times> string) option" where
  "json_frac r =
     (if next_is (CHR ''.'') r then
        (let fp = takeWhile is_digit (tl r)
         in if fp = [] then None else Some (fp, dropWhile is_digit (tl r)))
      else Some ([], r))"

definition json_exp :: "string \<Rightarrow> (int \<times> string) option" where
  "json_exp r =
     (if next_is (CHR ''e'') r \<or> next_is (CHR ''E'') r then
        (let r1 = tl r;
             r2 = (if next_is (CHR ''-'') r1 \<or> next_is (CHR ''+'') r1 then tl r1 else r1);
             ed = takeWhile is_digit r2
         in if ed = [] then None
            else Some (if next_is (CHR ''-'') r1 then - int (nat_of_digits ed)
                       else int (nat_of_digits ed),
                       dropWhile is_digit r2))
      else Some (0, r))"

definition json_number :: "string \<Rightarrow> (jsnum \<times> string) option" where
  "json_number s =
     (case json_int (if next_is (CHR ''-'') s then tl s else s) of
        None \<Rightarrow> None
      | Some (ip, r1) \<Rightarrow>
          (case json_frac r1 of
             None \<Rightarrow> None
           | Some (fp, r2) \<Rightarrow>
               (case json_exp r2 of
                  None \<Rightarrow> None
                | Some (ex, r3) \<Rightarrow>
                    Some (Fin (next_is (CHR ''-'') s) (nat_of_digits (ip @ fp))
                            (ex - int (length fp)), r3))))"

fun json_value :: "nat \<Rightarrow> string \<Rightarrow> (jsval \<times> string) option"
  and json_elements :: "nat \<Rightarrow> string \<Rightarrow> (jsval list \<times> string) option"
  and json_members :: "nat \<Rightarrow> string \<Rightarrow> ((string \<times> jsval) list \<times> string) option"
where
  "json_value 0 s = None"
| "json_value (Suc n) s =
     (let t = skip_ws s
      in if next_is (CHR ''{'') t then
           (if next_is (CHR ''}'') (skip_ws (tl t)) then Some (JObj [], tl (skip_ws (tl t)))
            else
              (case json_members n (tl t) of
                 None \<Rightarrow> None
               | Some (ms, r) \<Rightarrow> Some (JObj (foldl (\<lambda>acc (k, v). set_prop k v acc) [] ms), r)))
         else if next_is (CHR ''['') t then
           (if next_is (CHR '']'') (skip_ws (tl t)) then Some (JArr [], tl (skip_ws (tl t)))
            else
              (case json_elements n (tl t) of
                 None \<Rightarrow> None
               | Some (vs, r) \<Rightarrow> Some (JArr vs, r)))
         else if next_is (CHR 0x22) t then
           (case json_chars (tl t) of
              None \<Rightarrow> None
            | Some (str, r) \<Rightarrow> Some (JStr str, r))
         else if starts_with t ''true'' then Some (JBool True, drop 4 t)
         else if starts_with t ''false'' then Some (JBool False, drop 5 t)
         else if starts_with t ''null'' then Some (JNull, drop 4 t)
         else
           (case json_number t of
              None \<Rightarrow> None
            | Some (n, r) \<Rightarrow> Some (JNum n, r)))"
| "json_elements 0 s = None"
| "json_elements (Suc n) s =
     (case json_value n s of
        None \<Rightarrow> None
      | Some (v, r) \<Rightarrow>
          (let t = skip_ws r
           in if next_is (CHR '','') t then
                (case json_elements n (tl t) of
                   None \<Rightarrow> None
                 | Some (vs, r') \<Rightarrow> Some (v # vs, r'))
              else if next_is (CHR '']'') t then Some ([v], tl t)
              else None))"
| "json_members 0 s = None"
| "json_members (Suc n) s =
     (let t = skip_ws s
      in if next_is (CHR 0x22) t then
           (case json_chars (tl t) of
              None \<Rightarrow> None
            | Some (k, r) \<Rightarrow>
                (let t1 = skip_ws r
                 in if next_is (CHR '':'') t1 then
                      (case json_value n (tl t1) of
                         None \<Rightarrow> None
                       | Some (v, r2) \<Rightarrow>
                           (let t2 = skip_ws r2
                            in if next_is (CHR '','') t2 then
                                 (case json_members n (tl t2) of
                                    None \<Rightarrow> None
                                  | Some (ms, r3) \<Rightarrow> Some ((k, v) # ms, r3))
                               else if next_is (CHR ''}'') t2 then Some ([(k, v)], tl t2)
                               else None))
                    else None))
         else None)"

definition JSON_parse :: "string \<Rightarrow> jsval option" where
  "JSON_parse s =
     (case json_value (2 * length s + 2) s of
        None \<Rightarrow> None
      | Some (v, r) \<Rightarrow> if skip_ws r = [] then Some v else None)"

section \<open>The remote boundary and the effects of a call\<close>

text \<open>
  What a rejected promise carries: an \<open>Error\<close> built by the module with its message, a
  \<open>TypeError\<close> raised by the runtime on a property read of \<open>null\<close> or \<open>undefined\<close>, or a
  foreign error object thrown on as it was received.
\<close>

datatype exn =
    Error string
  | TypeError
  | Thrown jsval

text \<open>
  \<open>supabase.functions.invoke(name, {body})\<close> answers with the pair \<open>{data, error}\<close>. The
  remote functions are a parameter of every operation: a function from the name and the
  request body to the answer.
\<close>

record reply =
  reply_data :: jsval
  reply_error :: jsval

type_synonym remote = "string \<Rightarrow> jsval \<Rightarrow> reply"

text \<open>
  An operation returns its outcome together with the remote invocations it made, in the
  order it made them.
\<close>

type_synonym invocation = "string \<times> jsval"
type_synonym 'a io = "(exn + 'a) \<times> invocation list"

definition io_return :: "'a \<Rightarrow> 'a io" where
  "io_return x = (Inr x, [])"

definition io_throw :: "exn \<Rightarrow> 'a io" where
  "io_throw e = (Inl e, [])"

definition io_bind :: "'a io \<Rightarrow> ('a \<Rightarrow> 'b io) \<Rightarrow> 'b io" where
  "io_bind m f =
     (case fst m of
        Inl e \<Rightarrow> (Inl e, snd m)
      | Inr x \<Rightarrow> (fst (f x), snd m @ snd (f x)))"

text \<open>\<open>try { m } catch (error) { h(error) }\<close>.\<close>

definition io_catch :: "'a io \<Rightarrow> (exn \<Rightarrow> 'a io) \<Rightarrow> 'a io" where
  "io_catch m h =
     (case fst m of
        Inl e \<Rightarrow> (fst (h e), snd m @ snd (h e))
      | Inr x \<Rightarrow> m)"

definition io_lift :: "exn + 'a \<Rightarrow> 'a io" where
  "io_lift r = (r, [])"

section \<open>OAuth token access\<close>

text \<open>
  The persisted integration record. A time stamp is a number of milliseconds since the
  epoch; \<open>None\<close> is a \<open>null\<close> column.
\<close>

record integration =
  user_id :: string
  organization_id :: "string option"
  access_token :: "string option"
  refresh_token :: "string option"
  token_expires_at :: "int option"
  is_connected :: bool
  connected_at :: "int option"
  disconnected_at :: "int option"

text \<open>
  The table \<open>zoho_books_integrations\<close> as its client shows it: the rows, and the error
  the store reports for a request (\<open>JNull\<close> while it is healthy).
\<close>

record table =
  rows :: "integration list"
  fault :: jsval

text \<open>
  \<open>.select(...).eq('user_id', userId).single()\<close>: the row, or an error when the store
  fails or when the rows of the user are not exactly one.
\<close>

definition select_single :: "table \<Rightarrow> string \<Rightarrow> integration option" where
  "select_single t userId =
     (if truthy (fault t) then None
      else case filter (\<lambda>r. user_id r = userId) (rows t) of
             [r] \<Rightarrow> Some r
           | _ \<Rightarrow> None)"

definition refreshZohoBooksToken :: "remote \<Rightarrow> string \<Rightarrow> jsval io" where
  "refreshZohoBooksToken invoke userId =
     (let req = JObj [(''userId'', JStr userId)];
          r = invoke ''zoho-token-refresh'' req;
          d = reply_data r
      in (if truthy (reply_error r) then Inl (Thrown (reply_error r))
          else if \<not> truthy (opt_prop d ''success'') \<or> \<not> truthy (opt_prop d ''accessToken'')
            then Inl (Error (String (js_or (opt_prop d ''error'') (JStr ''Token refresh failed''))))
          else Inr (get_prop d ''accessToken''),
          [(''zoho-token-refresh'', req)]))"

text \<open>
  \<open>new Date(integration.token_expires_at)\<close> of a \<open>null\<close> column is the epoch; \<open>now\<close> is
  the reading of \<open>new Date()\<close>.
\<close>

definition getValidAccessToken :: "remote \<Rightarrow> table \<Rightarrow> int \<Rightarrow> string \<Rightarrow> jsval io" where
  "getValidAccessToken invoke t now userId =
     (case select_single t userId of
        None \<Rightarrow> io_throw (Error ''No Zoho Books integration found'')
      | Some integration \<Rightarrow>
          (case access_token integration of
             None \<Rightarrow> io_throw (Error ''No Zoho Books integration found'')
           | Some tok \<Rightarrow>
               if tok = [] then io_throw (Error ''No Zoho Books integration found'')
               else
                 (let expiresAt = (case token_expires_at integration of None \<Rightarrow> 0 | Some ms \<Rightarrow> ms)
                  in if expiresAt < now then refreshZohoBooksToken invoke userId
                     else io_return (JStr tok))))"

text \<open>
  \<open>disconnectZohoBooks\<close>: one \<open>update\<close> of the rows whose \<open>user_id\<close> is the user's. A
  store that reports an error leaves the rows as they were, in this model.
\<close>

definition disconnect_row :: "int \<Rightarrow> integration \<Rightarrow> integration" where
  "disconnect_row now r =
     r\<lparr>is_connected := False, access_token := None, refresh_token := None,
       disconnected_at := Some now\<rparr>"

definition disconnectZohoBooks :: "int \<Rightarrow> string \<Rightarrow> table \<Rightarrow> (exn + jsval) \<times> table" where
  "disconnectZohoBooks now userId t =
     (if truthy (fault t) then (Inl (Thrown (fault t)), t)
      else (Inr (JObj [(''success'', JBool True)]),
            t\<lparr>rows := map (\<lambda>r. if user_id r = userId then disconnect_row now r else r) (rows t)\<rparr>))"

section \<open>The dispatcher\<close>

datatype http_method = GET | POST | PUT | DELETE

fun method_name :: "http_method \<Rightarrow> string" where
  "method_name GET = ''GET''"
| "method_name POST = ''POST''"
| "method_name PUT = ''PUT''"
| "method_name DELETE = ''DELETE''"

text \<open>The message for an envelope whose \<open>success\<close> is not truthy, before \<open>new Error\<close>.\<close>

definition status_message :: "jsval \<Rightarrow> jsval \<Rightarrow> jsval" where
  "status_message errorStatus errorMsg =
     (if is_nat errorStatus 403 then
        JStr ''Permission denied. This item may be linked to active transactions and cannot be deleted.''
      else if is_nat errorStatus 404 then
        JStr ''Item not found in Zoho Books. It may have already been deleted.''
      else if is_nat errorStatus 400 then
        JStr ''Invalid request. Please check the item details.''
      else if is_nat errorStatus 401 then
        JStr ''Authorization failed. Please reconnect to Zoho Books.''
      else errorMsg)"

text \<open>
  \<open>try { parsedError = JSON.parse(errorMsg); if (parsedError.message) errorMsg =
  parsedError.message } catch (e) {}\<close>: a \<open>SyntaxError\<close> of the parse and the
  \<open>TypeError\<close> of reading \<open>message\<close> of a parsed \<open>null\<close> are both swallowed.
\<close>

definition parsed_message :: "jsval \<Rightarrow> jsval" where
  "parsed_message errorMsg =
     (case JSON_parse (String errorMsg) of
        None \<Rightarrow> errorMsg
      | Some parsedError \<Rightarrow>
          if nullish parsedError then errorMsg
          else if truthy (get_prop parsedError ''message'') then get_prop parsedError ''message''
          else errorMsg)"

definition failure_message :: "jsval \<Rightarrow> string" where
  "failure_message d =
     (let errorMsg = js_or (opt_prop d ''error'') (JStr ''API call failed'');
          errorStatus = js_or (opt_prop d ''status'') (JNum (number_of 500))
      in String (parsed_message (status_message errorStatus errorMsg)))"

text \<open>What the dispatcher makes of the answer of \<open>zoho-api-call\<close>.\<close>

definition envelope_result :: "reply \<Rightarrow> exn + jsval" where
  "envelope_result r =
     (if truthy (reply_error r) then
        Inl (Error (String (js_or (opt_prop (reply_error r) ''message'') (JStr ''Unknown error''))))
      else if \<not> truthy (opt_prop (reply_data r) ''success'') then
        Inl (Error (failure_message (reply_data r)))
      else Inr (get_prop (reply_data r) ''data''))"

definition api_request :: "string \<Rightarrow> string \<Rightarrow> string \<Rightarrow> http_method \<Rightarrow> jsval \<Rightarrow> jsval" where
  "api_request userId organizationId endpoint method body =
     JObj [(''userId'', JStr userId), (''organizationId'', JStr organizationId),
           (''endpoint'', JStr endpoint), (''method'', JStr (method_name method)),
           (''body'', body)]"

definition zohoBooksApiCall ::
  "remote \<Rightarrow> string \<Rightarrow> string \<Rightarrow> string \<Rightarrow> http_method \<Rightarrow> jsval \<Rightarrow> jsval io" where
  "zohoBooksApiCall invoke userId organizationId endpoint method body =
     (let req = api_request userId organizationId endpoint method body
      in (envelope_result (invoke ''zoho-api-call'' req), [(''zoho-api-call'', req)]))"

section \<open>Resource accessors\<close>

subsection \<open>Query strings\<close>

text \<open>
  \<open>URLSearchParams\<close>: \<open>set\<close> replaces the value of a name or appends the pair;
  \<open>toString\<close> is the \<open>application/x-www-form-urlencoded\<close> serialisation.
\<close>

type_synonym params = "(string \<times> string) list"

definition params_set :: "string \<Rightarrow> string \<Rightarrow> params \<Rightarrow> params" where
  "params_set k v ps = AList.update k v ps"

definition hex_digit :: "nat \<Rightarrow> char" where
  "hex_digit n = ''0123456789ABCDEF'' ! (n mod 16)"

definition percent_byte :: "nat \<Rightarrow> string" where
  "percent_byte b = [CHR ''%'', hex_digit (b div 16), hex_digit b]"

definition url_unreserved :: "char \<Rightarrow> bool" where
  "url_unreserved c =
     (let n = (of_char c :: nat)
      in (48 \<le> n \<and> n \<le> 57) \<or> (65 \<le> n \<and> n \<le> 90) \<or> (97 \<le> n \<and> n \<le> 122)
         \<or> c = CHR ''*'' \<or> c = CHR ''-'' \<or> c = CHR ''.'' \<or> c = CHR ''_'')"

definition urlencode_char :: "char \<Rightarrow> string" where
  "urlencode_char c =
     (let n = (of_char c :: nat)
      in if url_unreserved c then [c]
         else if c = CHR '' '' then ''+''
         else if n < 128 then percent_byte n
         else percent_byte (192 + n div 64) @ percent_byte (128 + n mod 64))"

definition urlencode :: "string \<Rightarrow> string" where
  "urlencode s = concat (map urlencode_char s)"

definition params_toString :: "params \<Rightarrow> string" where
  "params_toString ps = join ''&'' (map (\<lambda>(k, v). urlencode k @ ''='' @ urlencode v) ps)"

text \<open>The optional filters of a list operation; the argument itself is optional.\<close>

record filters =
  status :: "string option"
  limit :: "jsnum option"
  offset :: "jsnum option"

text \<open>\<open>if (filters?.status) params.set('status', filters.status)\<close>, and the like.\<close>

definition with_status :: "filters option \<Rightarrow> params \<Rightarrow> params" where
  "with_status f ps =
     (case f of
        None \<Rightarrow> ps
      | Some fl \<Rightarrow>
          (case status fl of
             None \<Rightarrow> ps
           | Some st \<Rightarrow> if st \<noteq> [] then params_set ''status'' st ps else ps))"

definition with_limit :: "filters option \<Rightarrow> params \<Rightarrow> params" where
  "with_limit f ps =
     (case f of
        None \<Rightarrow> ps
      | Some fl \<Rightarrow>
          (case limit fl of
             None \<Rightarrow> ps
           | Some n \<Rightarrow> if num_truthy n then params_set ''limit'' (numToString n) ps else ps))"

definition with_offset :: "filters option \<Rightarrow> params \<Rightarrow> params" where
  "with_offset f ps =
     (case f of
        None \<Rightarrow> ps
      | Some fl \<Rightarrow>
          (case offset fl of
             None \<Rightarrow> ps
           | Some n \<Rightarrow> if num_truthy n then params_set ''offset'' (numToString n) ps else ps))"

text \<open>\<open>`${endpoint}${params.toString() ? '?' + params.toString() : ''}`\<close>.\<close>

definition query_endpoint :: "string \<Rightarrow> params \<Rightarrow> string" where
  "query_endpoint endpoint ps =
     endpoint @ (if params_toString ps \<noteq> [] then ''?'' @ params_toString ps else [])"

definition invoices_endpoint :: "filters option \<Rightarrow> string" where
  "invoices_endpoint f = query_endpoint ''/invoices'' (with_offset f (with_limit f (with_status f [])))"

definition customers_endpoint :: "filters option \<Rightarrow> string" where
  "customers_endpoint f =
     query_endpoint ''/contacts''
       (params_set ''contact_type'' ''customer'' (with_status f (with_offset f (with_limit f []))))"

definition vendors_endpoint :: "filters option \<Rightarrow> string" where
  "vendors_endpoint f =
     query_endpoint ''/contacts''
       (params_set ''contact_type'' ''vendor'' (with_status f (with_offset f (with_limit f []))))"

definition expenses_endpoint :: "filters option \<Rightarrow> string" where
  "expenses_endpoint f = query_endpoint ''/expenses'' (with_status f (with_offset f (with_limit f [])))"

subsection \<open>Organization\<close>

definition getOrganizationId :: "remote \<Rightarrow> string \<Rightarrow> jsval io" where
  "getOrganizationId invoke userId =
     (let req = JObj [(''userId'', JStr userId)];
          r = invoke ''zoho-get-organization'' req;
          d = reply_data r
      in (if truthy (reply_error r) then Inl (Thrown (reply_error r))
          else if \<not> truthy (opt_prop d ''success'') \<or> \<not> truthy (opt_prop d ''organizationId'')
            then Inl (Error (String (js_or (opt_prop d ''error'') (JStr ''Failed to fetch organization''))))
          else Inr (get_prop d ''organizationId''),
          [(''zoho-get-organization'', req)]))"

definition default_currency :: jsval where
  "default_currency = JObj [(''currency_code'', JStr ''USD''), (''currency_symbol'', JStr ''$'')]"

definition getOrganizationDetails :: "remote \<Rightarrow> string \<Rightarrow> string \<Rightarrow> jsval io" where
  "getOrganizationDetails invoke userId organizationId =
     io_catch
       (io_bind (zohoBooksApiCall invoke userId organizationId ''/organization'' GET JUndefined)
          (\<lambda>d. io_return
             (JObj [(''currency_code'',
                      js_or (opt_prop (opt_prop d ''organization'') ''currency_code'') (JStr ''USD'')),
                    (''currency_symbol'',
                      js_or (opt_prop (opt_prop d ''organization'') ''currency_symbol'') (JStr ''$''))])))
       (\<lambda>e. io_return default_currency)"

subsection \<open>Invoices\<close>

definition getInvoices :: "remote \<Rightarrow> string \<Rightarrow> string \<Rightarrow> filters option \<Rightarrow> jsval io" where
  "getInvoices invoke userId organizationId f =
     zohoBooksApiCall invoke userId organizationId (invoices_endpoint f) GET JUndefined"

definition getInvoice :: "remote \<Rightarrow> string \<Rightarrow> string \<Rightarrow> string \<Rightarrow> jsval io" where
  "getInvoice invoke userId organizationId invoiceId =
     zohoBooksApiCall invoke userId organizationId (''/invoices/'' @ invoiceId) GET JUndefined"

definition createInvoice :: "remote \<Rightarrow> string \<Rightarrow> string \<Rightarrow> jsval \<Rightarrow> jsval io" where
  "createInvoice invoke userId organizationId invoiceData =
     zohoBooksApiCall invoke userId organizationId ''/invoices'' POST invoiceData"

definition updateInvoice :: "remote \<Rightarrow> string \<Rightarrow> string \<Rightarrow> string \<Rightarrow> jsval \<Rightarrow> jsval io" where
  "updateInvoice invoke userId organizationId invoiceId invoiceData =
     zohoBooksApiCall invoke userId organizationId (''/invoices/'' @ invoiceId) PUT invoiceData"

definition deleteInvoice :: "remote \<Rightarrow> string \<Rightarrow> string \<Rightarrow> string \<Rightarrow> jsval io" where
  "deleteInvoice invoke userId organizationId invoiceId =
     zohoBooksApiCall invoke userId organizationId (''/invoices/'' @ invoiceId) DELETE JUndefined"

subsection \<open>Customers and vendors\<close>

text \<open>
  \<open>let contacts = data?.contacts || []; if (!Array.isArray(contacts)) contacts = [];
  return {...data, contacts}\<close>, shared by \<open>getCustomers\<close> and \<open>getVendors\<close>.
\<close>

definition with_contacts :: "jsval \<Rightarrow> jsval" where
  "with_contacts d =
     (let contacts = js_or (opt_prop d ''contacts'') (JArr []);
          contacts' = (if \<not> isArray contacts then JArr [] else contacts)
      in JObj (set_prop ''contacts'' contacts' (spread d)))"

definition getCustomers :: "remote \<Rightarrow> string \<Rightarrow> string \<Rightarrow> filters option \<Rightarrow> jsval io" where
  "getCustomers invoke userId organizationId f =
     io_bind (zohoBooksApiCall invoke userId organizationId (customers_endpoint f) GET JUndefined)
       (\<lambda>d. io_return (with_contacts d))"

definition getCustomer :: "remote \<Rightarrow> string \<Rightarrow> string \<Rightarrow> string \<Rightarrow> jsval io" where
  "getCustomer invoke userId organizationId customerId =
     zohoBooksApiCall invoke userId organizationId (''/contacts/'' @ customerId) GET JUndefined"

definition createCustomer :: "remote \<Rightarrow> string \<Rightarrow> string \<Rightarrow> jsval \<Rightarrow> jsval io" where
  "createCustomer invoke userId organizationId customerData =
     zohoBooksApiCall invoke userId organizationId ''/contacts'' POST customerData"

definition updateCustomer :: "remote \<Rightarrow> string \<Rightarrow> string \<Rightarrow> string \<Rightarrow> jsval \<Rightarrow> jsval io" where
  "updateCustomer invoke userId organizationId customerId customerData =
     zohoBooksApiCall invoke userId organizationId (''/contacts/'' @ customerId) PUT customerData"

definition deleteCustomer :: "remote \<Rightarrow> string \<Rightarrow> string \<Rightarrow> string \<Rightarrow> jsval io" where
  "deleteCustomer invoke userId organizationId customerId =
     zohoBooksApiCall invoke userId organizationId (''/contacts/'' @ customerId) DELETE JUndefined"

definition getVendors :: "remote \<Rightarrow> string \<Rightarrow> string \<Rightarrow> filters option \<Rightarrow> jsval io" where
  "getVendors invoke userId organizationId f =
     io_bind (zohoBooksApiCall invoke userId organizationId (vendors_endpoint f) GET JUndefined)
       (\<lambda>d. io_return (with_contacts d))"

definition getVendor :: "remote \<Rightarrow> string \<Rightarrow> string \<Rightarrow> string \<Rightarrow> jsval io" where
  "getVendor invoke userId organizationId vendorId =
     zohoBooksApiCall invoke userId organizationId (''/contacts/'' @ vendorId) GET JUndefined"

text \<open>\<open>const vendorPayload = {...vendorData, contact_type: 'vendor'}\<close>.\<close>

definition vendorPayload :: "jsval \<Rightarrow> jsval" where
  "vendorPayload vendorData = JObj (set_prop ''contact_type'' (JStr ''vendor'') (spread vendorData))"

definition createVendor :: "remote \<Rightarrow> string \<Rightarrow> string \<Rightarrow> jsval \<Rightarrow> jsval io" where
  "createVendor invoke userId organizationId vendorData =
     zohoBooksApiCall invoke userId organizationId ''/contacts'' POST (vendorPayload vendorData)"

definition updateVendor :: "remote \<Rightarrow> string \<Rightarrow> string \<Rightarrow> string \<Rightarrow> jsval \<Rightarrow> jsval io" where
  "updateVendor invoke userId organizationId vendorId vendorData =
     zohoBooksApiCall invoke userId organizationId (''/contacts/'' @ vendorId) PUT vendorData"

definition deleteVendor :: "remote \<Rightarrow> string \<Rightarrow> string \<Rightarrow> string \<Rightarrow> jsval io" where
  "deleteVendor invoke userId organizationId vendorId =
     zohoBooksApiCall invoke userId organizationId (''/contacts/'' @ vendorId) DELETE JUndefined"

subsection \<open>Chart of accounts\<close>

definition getChartOfAccounts :: "remote \<Rightarrow> string \<Rightarrow> string \<Rightarrow> jsval io" where
  "getChartOfAccounts invoke userId organizationId =
     zohoBooksApiCall invoke userId organizationId ''/chartofaccounts'' GET JUndefined"

text \<open>
  \<open>chartofaccounts.filter((acc) => acc.account_type === 'expense')\<close>: the callback reads
  a property of every element, so a \<open>null\<close> or \<open>undefined\<close> element raises.
\<close>

fun filter_expense :: "jsval list \<Rightarrow> exn + jsval list" where
  "filter_expense [] = Inr []"
| "filter_expense (acc # rest) =
     (if nullish acc then Inl TypeError
      else case filter_expense rest of
             Inl e \<Rightarrow> Inl e
           | Inr accs \<Rightarrow>
               Inr (if is_string (get_prop acc ''account_type'') ''expense'' then acc # accs else accs))"

definition account_summary :: "jsval \<Rightarrow> jsval" where
  "account_summary acc =
     JObj [(''account_id'', get_prop acc ''account_id''),
           (''account_name'', get_prop acc ''account_name''),
           (''account_type'', get_prop acc ''account_type'')]"

definition expense_accounts_of :: "jsval \<Rightarrow> exn + jsval list" where
  "expense_accounts_of d =
     (if truthy (opt_prop d ''chartofaccounts'') \<and> isArray (get_prop d ''chartofaccounts'') then
        (case filter_expense (elements (get_prop d ''chartofaccounts'')) of
           Inl e \<Rightarrow> Inl e
         | Inr accs \<Rightarrow> Inr (map account_summary accs))
      else Inr [])"

definition getExpenseAccounts :: "remote \<Rightarrow> string \<Rightarrow> string \<Rightarrow> jsval list io" where
  "getExpenseAccounts invoke userId organizationId =
     io_bind (zohoBooksApiCall invoke userId organizationId ''/chartofaccounts'' GET JUndefined)
       (\<lambda>d. io_lift (expense_accounts_of d))"

subsection \<open>Expenses: the normalizer\<close>

definition parsed_amount :: "jsval \<Rightarrow> jsnum" where
  "parsed_amount v = (let parsed = parseFloat (String v) in if isNaN parsed then Fin False 0 0 else parsed)"

definition expense_amount :: "jsval \<Rightarrow> jsnum" where
  "expense_amount expense =
     (let a = get_prop expense ''amount''; t = get_prop expense ''total''
      in if is_number a \<and> num_positive (the_number a) then the_number a
         else if is_number t \<and> num_positive (the_number t) then the_number t
         else if truthy a then parsed_amount a
         else if truthy t then parsed_amount t
         else Fin False 0 0)"

definition expense_vendor_name :: "jsval \<Rightarrow> string" where
  "expense_vendor_name expense =
     (if truthy (get_prop expense ''vendor_name'') then trim (String (get_prop expense ''vendor_name''))
      else if truthy (get_prop expense ''vendor'') then trim (String (get_prop expense ''vendor''))
      else [])"

definition expense_vendor_id :: "jsval \<Rightarrow> string" where
  "expense_vendor_id expense =
     (if truthy (get_prop expense ''vendor_id'') then trim (String (get_prop expense ''vendor_id''))
      else [])"

text \<open>\<open>today\<close> is the reading of \<open>new Date().toISOString().split('T')[0]\<close>.\<close>

definition expense_date_of :: "string \<Rightarrow> jsval \<Rightarrow> string" where
  "expense_date_of today expense =
     (if truthy (get_prop expense ''expense_date'') \<and> trim (String (get_prop expense ''expense_date'')) \<noteq> []
        then trim (String (get_prop expense ''expense_date''))
      else if truthy (get_prop expense ''date'') \<and> trim (String (get_prop expense ''date'')) \<noteq> []
        then trim (String (get_prop expense ''date''))
      else today)"

definition expense_status :: "jsval \<Rightarrow> string" where
  "expense_status expense =
     trim (toLowerCase (String
       (js_or (get_prop expense ''status'')
          (js_or (get_prop expense ''payment_status'') (JStr ''nonbillable'')))))"

text \<open>\<open>now\<close> is the reading of \<open>Date.now()\<close>.\<close>

definition expense_id_of :: "nat \<Rightarrow> jsval \<Rightarrow> nat \<Rightarrow> jsval" where
  "expense_id_of now expense index =
     js_or (get_prop expense ''expense_id'')
       (js_or (get_prop expense ''id'')
          (JStr (''expense-'' @ numToString (number_of index) @ ''-'' @ numToString (number_of now))))"

definition expense_account_name :: "jsval \<Rightarrow> jsval" where
  "expense_account_name expense =
     (let account = get_prop expense ''account''
      in if truthy account then
           (if typeof_object account then js_or (get_prop account ''account_name'') (JStr [])
            else JStr (trim (String account)))
         else JStr [])"

definition expense_account_id :: "jsval \<Rightarrow> jsval" where
  "expense_account_id expense =
     (let account = get_prop expense ''account'';
          account_id = (if truthy account \<and> typeof_object account
                        then js_or (get_prop account ''account_id'') (JStr [])
                        else JStr [])
      in if truthy (get_prop expense ''account_id'') \<and> \<not> truthy account_id
           then JStr (trim (String (get_prop expense ''account_id'')))
         else account_id)"

text \<open>
  The callback of \<open>expenses.map((expense, index) => ...)\<close>. Its first statement reads a
  property of \<open>expense\<close>, which raises on a \<open>null\<close> or \<open>undefined\<close> element; nothing
  after that can raise.
\<close>

definition normalize_expense :: "string \<Rightarrow> nat \<Rightarrow> jsval \<Rightarrow> nat \<Rightarrow> exn + jsval" where
  "normalize_expense today now expense index =
     (if nullish expense then Inl TypeError
      else Inr (JObj
        [(''expense_id'', JStr (String (expense_id_of now expense index))),
         (''vendor_name'',
            JStr (if expense_vendor_name expense \<noteq> [] then expense_vendor_name expense
                  else ''Unknown Vendor'')),
         (''vendor_id'', JStr (expense_vendor_id expense)),
         (''amount'', JNum (expense_amount expense)),
         (''status'', JStr (expense_status expense)),
         (''expense_date'', JStr (expense_date_of today expense)),
         (''reference_number'', js_or (get_prop expense ''reference_number'') (JStr [])),
         (''customer_name'', js_or (get_prop expense ''customer_name'') (JStr [])),
         (''paid_through'', js_or (get_prop expense ''paid_through'') (JStr [])),
         (''account_name'', expense_account_name expense),
         (''account_id'', expense_account_id expense),
         (''currency'',
            js_or (get_prop expense ''currency_code'') (js_or (get_prop expense ''currency'') (JStr [])))]))"

text \<open>
  \<open>Array.prototype.map\<close> over the raw expenses, from index \<open>i\<close> on. The clock is read
  in every callback: \<open>today i\<close> and \<open>now i\<close> are its readings for the element at \<open>i\<close>.
\<close>

fun normalize_from :: "(nat \<Rightarrow> string) \<Rightarrow> (nat \<Rightarrow> nat) \<Rightarrow> nat \<Rightarrow> jsval list \<Rightarrow> exn + jsval list" where
  "normalize_from today now i [] = Inr []"
| "normalize_from today now i (expense # rest) =
     (case normalize_expense (today i) (now i) expense i of
        Inl e \<Rightarrow> Inl e
      | Inr n \<Rightarrow>
          (case normalize_from today now (Suc i) rest of
             Inl e \<Rightarrow> Inl e
           | Inr ns \<Rightarrow> Inr (n # ns)))"

definition raw_expenses :: "jsval \<Rightarrow> jsval list" where
  "raw_expenses d =
     (let expenses = js_or (opt_prop d ''expenses'') (JArr [])
      in if \<not> isArray expenses then [] else elements expenses)"

definition normalizedExpenses :: "(nat \<Rightarrow> string) \<Rightarrow> (nat \<Rightarrow> nat) \<Rightarrow> jsval list \<Rightarrow> exn + jsval list" where
  "normalizedExpenses today now expenses = normalize_from today now 0 expenses"

definition getExpenses ::
  "(nat \<Rightarrow> string) \<Rightarrow> (nat \<Rightarrow> nat) \<Rightarrow> remote \<Rightarrow> string \<Rightarrow> string \<Rightarrow> filters option \<Rightarrow> jsval io" where
  "getExpenses today now invoke userId organizationId f =
     io_bind (zohoBooksApiCall invoke userId organizationId (expenses_endpoint f) GET JUndefined)
       (\<lambda>d. io_bind (io_lift (normalizedExpenses today now (raw_expenses d)))
          (\<lambda>ns. io_return (JObj (set_prop ''expenses'' (JArr ns) (spread d)))))"

definition getExpense :: "remote \<Rightarrow> string \<Rightarrow> string \<Rightarrow> string \<Rightarrow> jsval io" where
  "getExpense invoke userId organizationId expenseId =
     zohoBooksApiCall invoke userId organizationId (''/expenses/'' @ expenseId) GET JUndefined"

definition updateExpense :: "remote \<Rightarrow> string \<Rightarrow> string \<Rightarrow> string \<Rightarrow> jsval \<Rightarrow> jsval io" where
  "updateExpense invoke userId organizationId expenseId expenseData =
     zohoBooksApiCall invoke userId organizationId (''/expenses/'' @ expenseId) PUT expenseData"

definition deleteExpense :: "remote \<Rightarrow> string \<Rightarrow> string \<Rightarrow> string \<Rightarrow> jsval io" where
  "deleteExpense invoke userId organizationId expenseId =
     zohoBooksApiCall invoke userId organizationId (''/expenses/'' @ expenseId) DELETE JUndefined"

subsection \<open>Expenses: creation\<close>

record attachment =
  file_name :: string
  file_type :: string
  file_content :: string

record expenseData =
  vendor_id :: "string option"
  vendor_name :: "string option"
  reference_number :: "string option"
  account_id :: "string option"
  expense_date :: string
  total :: jsnum
  "notes" :: "string option"
  attachments :: "attachment list option"

definition attachment_value :: "attachment \<Rightarrow> jsval" where
  "attachment_value a =
     JObj [(''file_name'', JStr (file_name a)), (''file_type'', JStr (file_type a)),
           (''file_content'', JStr (file_content a))]"

text \<open>An optional string that is present and not empty: what \<open>if (expenseData.k)\<close> tests.\<close>

fun given :: "string option \<Rightarrow> bool" where
  "given None = False"
| "given (Some str) = (str \<noteq> [])"

fun optional_string :: "string \<Rightarrow> string option \<Rightarrow> (string \<times> jsval) list" where
  "optional_string k None = []"
| "optional_string k (Some str) = (if str \<noteq> [] then [(k, JStr str)] else [])"

fun optional_attachments :: "attachment list option \<Rightarrow> (string \<times> jsval) list" where
  "optional_attachments None = []"
| "optional_attachments (Some files) =
     (if 0 < length files then [(''attachments'', JArr (map attachment_value files))] else [])"

definition expensePayload :: "expenseData \<Rightarrow> jsval \<Rightarrow> jsval" where
  "expensePayload ed accountId =
     JObj ([(''vendor_name'', JStr (case vendor_name ed of
                                      None \<Rightarrow> ''Expense''
                                    | Some v \<Rightarrow> if v \<noteq> [] then v else ''Expense'')),
            (''account_id'', accountId),
            (''expense_date'', JStr (expense_date ed)),
            (''amount'', JNum (total ed))]
           @ optional_string ''vendor_id'' (vendor_id ed)
           @ optional_string ''reference_number'' (reference_number ed)
           @ optional_string ''notes'' (notes ed)
           @ optional_attachments (attachments ed))"

definition no_expense_account :: exn where
  "no_expense_account =
     Error ''No expense accounts found in your Zoho Books chart of accounts. Please create an expense account first.''"

text \<open>The account of the new expense: the caller's, or the first expense account of the chart.\<close>

definition select_account :: "remote \<Rightarrow> string \<Rightarrow> string \<Rightarrow> expenseData \<Rightarrow> jsval io" where
  "select_account invoke userId organizationId ed =
     (case account_id ed of
        Some a \<Rightarrow>
          if a \<noteq> [] then io_return (JStr a)
          else io_bind (getExpenseAccounts invoke userId organizationId)
                 (\<lambda>expenseAccounts.
                    case expenseAccounts of
                      [] \<Rightarrow> io_throw no_expense_account
                    | selectedAccount # others \<Rightarrow> io_return (get_prop selectedAccount ''account_id''))
      | None \<Rightarrow>
          io_bind (getExpenseAccounts invoke userId organizationId)
            (\<lambda>expenseAccounts.
               case expenseAccounts of
                 [] \<Rightarrow> io_throw no_expense_account
               | selectedAccount # others \<Rightarrow> io_return (get_prop selectedAccount ''account_id'')))"

definition createExpense :: "remote \<Rightarrow> string \<Rightarrow> string \<Rightarrow> expenseData \<Rightarrow> jsval io" where
  "createExpense invoke userId organizationId ed =
     io_bind (select_account invoke userId organizationId ed)
       (\<lambda>accountId.
          zohoBooksApiCall invoke userId organizationId ''/expenses'' POST (expensePayload ed accountId))"

subsection \<open>Reports\<close>

text \<open>
  \<open>subtract a b\<close> stands for the runtime's \<open>a - b\<close> on arbitrary values (a binary64
  subtraction after \<open>ToNumber\<close>), which this model does not compute.
\<close>

definition profit_and_loss_of :: "(jsval \<Rightarrow> jsval \<Rightarrow> jsnum) \<Rightarrow> jsval \<Rightarrow> jsval" where
  "profit_and_loss_of subtract d =
     (if truthy d then
        (if truthy (get_prop d ''profit_and_loss'') then
           (let report = get_prop d ''profit_and_loss''
            in JObj [(''total_income'', js_or (get_prop report ''total_income'') (JNum (number_of 0))),
                     (''total_expenses'', js_or (get_prop report ''total_expenses'') (JNum (number_of 0))),
                     (''net_profit'',
                        js_or (get_prop report ''net_profit'')
                          (js_or (JNum (subtract (get_prop report ''total_income'')
                                              (get_prop report ''total_expenses'')))
                             (JNum (number_of 0))))])
         else d)
      else JObj [(''total_income'', JNum (number_of 0)), (''total_expenses'', JNum (number_of 0)),
                 (''net_profit'', JNum (number_of 0))])"

definition getProfitAndLoss :: "(jsval \<Rightarrow> jsval \<Rightarrow> jsnum) \<Rightarrow> remote \<Rightarrow> string \<Rightarrow> string \<Rightarrow> jsval io" where
  "getProfitAndLoss subtract invoke userId organizationId =
     io_catch
       (io_bind (zohoBooksApiCall invoke userId organizationId ''/reports/profitandloss'' GET JUndefined)
          (\<lambda>d. io_return (profit_and_loss_of subtract d)))
       (\<lambda>error. io_throw error)"

definition balance_of :: "jsval \<Rightarrow> jsval" where
  "balance_of d =
     (if truthy d then
        (if truthy (get_prop d ''balance_sheet'') then
           (let report = get_prop d ''balance_sheet''
            in JObj [(''total_assets'', js_or (get_prop report ''total_assets'') (JNum (number_of 0))),
                     (''total_liabilities'',
                        js_or (get_prop report ''total_liabilities'') (JNum (number_of 0)))])
         else d)
      else JObj [(''total_assets'', JNum (number_of 0)), (''total_liabilities'', JNum (number_of 0))])"

definition getBalance :: "remote \<Rightarrow> string \<Rightarrow> string \<Rightarrow> jsval io" where
  "getBalance invoke userId organizationId =
     io_catch
       (io_bind (zohoBooksApiCall invoke userId organizationId ''/reports/balancesheet'' GET JUndefined)
          (\<lambda>d. io_return (balance_of d)))
       (\<lambda>error. io_throw error)"

definition getCashFlow :: "remote \<Rightarrow> string \<Rightarrow> string \<Rightarrow> jsval io" where
  "getCashFlow invoke userId organizationId =
     io_catch (zohoBooksApiCall invoke userId organizationId ''/reports/cashflow'' GET JUndefined)
       (\<lambda>error. io_throw error)"

definition getExpenseReport :: "remote \<Rightarrow> string \<Rightarrow> string \<Rightarrow> jsval io" where
  "getExpenseReport invoke userId organizationId =
     io_catch (zohoBooksApiCall invoke userId organizationId ''/reports/expenses'' GET JUndefined)
       (\<lambda>error. io_throw error)"

section \<open>The operations that go through the dispatcher\<close>

text \<open>
  Every exported function of the module that calls \<open>zohoBooksApiCall\<close>, with its
  arguments, so that a statement can range over all of them.
\<close>

datatype api_operation =
    GetOrganizationDetails
  | GetInvoices "filters option"
  | GetInvoice string
  | CreateInvoice jsval
  | UpdateInvoice string jsval
  | DeleteInvoice string
  | GetCustomers "filters option"
  | GetCustomer string
  | CreateCustomer jsval
  | UpdateCustomer string jsval
  | DeleteCustomer string
  | GetVendors "filters option"
  | GetVendor string
  | CreateVendor jsval
  | UpdateVendor string jsval
  | DeleteVendor string
  | GetChartOfAccounts
  | GetExpenseAccounts
  | GetExpenses "filters option"
  | GetExpense string
  | UpdateExpense string jsval
  | DeleteExpense string
  | CreateExpense expenseData
  | GetProfitAndLoss
  | GetBalance
  | GetCashFlow
  | GetExpenseReport

text \<open>The runtime of a call: the clock readings and the subtraction operator.\<close>

record runtime =
  today :: "nat \<Rightarrow> string"
  now_ms :: "nat \<Rightarrow> nat"
  subtract :: "jsval \<Rightarrow> jsval \<Rightarrow> jsnum"

fun perform :: "runtime \<Rightarrow> remote \<Rightarrow> string \<Rightarrow> string \<Rightarrow> api_operation \<Rightarrow> jsval io" where
  "perform rt invoke u og GetOrganizationDetails = getOrganizationDetails invoke u og"
| "perform rt invoke u og (GetInvoices f) = getInvoices invoke u og f"
| "perform rt invoke u og (GetInvoice i) = getInvoice invoke u og i"
| "perform rt invoke u og (CreateInvoice d) = createInvoice invoke u og d"
| "perform rt invoke u og (UpdateInvoice i d) = updateInvoice invoke u og i d"
| "perform rt invoke u og (DeleteInvoice i) = deleteInvoice invoke u og i"
| "perform rt invoke u og (GetCustomers f) = getCustomers invoke u og f"
| "perform rt invoke u og (GetCustomer i) = getCustomer invoke u og i"
| "perform rt invoke u og (CreateCustomer d) = createCustomer invoke u og d"
| "perform rt invoke u og (UpdateCustomer i d) = updateCustomer invoke u og i d"
| "perform rt invoke u og (DeleteCustomer i) = deleteCustomer invoke u og i"
| "perform rt invoke u og (GetVendors f) = getVendors invoke u og f"
| "perform rt invoke u og (GetVendor i) = getVendor invoke u og i"
| "perform rt invoke u og (CreateVendor d) = createVendor invoke u og d"
| "perform rt invoke u og (UpdateVendor i d) = updateVendor invoke u og i d"
| "perform rt invoke u og (DeleteVendor i) = deleteVendor invoke u og i"
| "perform rt invoke u og GetChartOfAccounts = getChartOfAccounts invoke u og"
| "perform rt invoke u og GetExpenseAccounts =
     io_bind (getExpenseAccounts invoke u og) (\<lambda>accs. io_return (JArr accs))"
| "perform rt invoke u og (GetExpenses f) = getExpenses (today rt) (now_ms rt) invoke u og f"
| "perform rt invoke u og (GetExpense i) = getExpense invoke u og i"
| "perform rt invoke u og (UpdateExpense i d) = updateExpense invoke u og i d"
| "perform rt invoke u og (DeleteExpense i) = deleteExpense invoke u og i"
| "perform rt invoke u og (CreateExpense ed) = createExpense invoke u og ed"
| "perform rt invoke u og GetProfitAndLoss = getProfitAndLoss (subtract rt) invoke u og"
| "perform rt invoke u og GetBalance = getBalance invoke u og"
| "perform rt invoke u og GetCashFlow = getCashFlow invoke u og"
| "perform rt invoke u og GetExpenseReport = getExpenseReport invoke u og"

section \<open>Sample inputs\<close>

text \<open>Concrete remote boundaries, records and payloads at which the theorems below are instantiated.\<close>

text \<open>A remote boundary that answers every call with a successful envelope around \<open>d\<close>.\<close>

definition answering :: "jsval \<Rightarrow> remote" where
  "answering d =
     (\<lambda>name req. \<lparr>reply_data = JObj [(''success'', JBool True), (''data'', d)], reply_error = JNull\<rparr>)"

text \<open>A remote boundary whose every invocation fails with the error object \<open>err\<close>.\<close>

definition failing :: "jsval \<Rightarrow> remote" where
  "failing err = (\<lambda>name req. \<lparr>reply_data = JNull, reply_error = err\<rparr>)"

text \<open>A refresh procedure that hands out a new token.\<close>

definition refreshing :: remote where
  "refreshing =
     (\<lambda>name req.
        \<lparr>reply_data = JObj [(''success'', JBool True), (''accessToken'', JStr ''tok-new'')],
         reply_error = JNull\<rparr>)"

text \<open>
  Integration records: \<open>alice\<close>'s token expired at 500, \<open>bob\<close>'s expires at 5000, and
  \<open>carol\<close> has disconnected (her tokens are cleared, the old expiry is still stored).
\<close>

definition alice :: integration where
  "alice =
     \<lparr>user_id = ''alice'', organization_id = Some ''org1'', access_token = Some ''tok-old'',
      refresh_token = Some ''ref-1'', token_expires_at = Some 500, is_connected = True,
      connected_at = Some 100, disconnected_at = None\<rparr>"

definition bob :: integration where
  "bob =
     \<lparr>user_id = ''bob'', organization_id = Some ''org2'', access_token = Some ''tok-bob'',
      refresh_token = Some ''ref-2'', token_expires_at = Some 5000, is_connected = True,
      connected_at = Some 200, disconnected_at = None\<rparr>"

definition carol :: integration where
  "carol =
     \<lparr>user_id = ''carol'', organization_id = Some ''org3'', access_token = None,
      refresh_token = None, token_expires_at = Some 500, is_connected = False,
      connected_at = Some 100, disconnected_at = Some 400\<rparr>"

definition store :: table where
  "store = \<lparr>rows = [alice, bob, carol], fault = JNull\<rparr>"

text \<open>A contact payload without a \<open>contact_type\<close>.\<close>

definition acme :: jsval where
  "acme = JObj [(''contact_name'', JStr ''Acme'')]"

text \<open>
  A remote boundary with a chart of three accounts, two of them expense accounts, and an
  expense to be created without an account.
\<close>

definition books :: remote where
  "books =
     (\<lambda>name req.
        if get_prop req ''endpoint'' = JStr ''/chartofaccounts'' then
          \<lparr>reply_data = JObj [(''success'', JBool True),
             (''data'', JObj [(''chartofaccounts'', JArr
                [JObj [(''account_id'', JStr ''a-sales''), (''account_name'', JStr ''Sales''),
                       (''account_type'', JStr ''income'')],
                 JObj [(''account_id'', JStr ''a-rent''), (''account_name'', JStr ''Rent''),
                       (''account_type'', JStr ''expense'')],
                 JObj [(''account_id'', JStr ''a-travel''), (''account_name'', JStr ''Travel''),
                       (''account_type'', JStr ''expense'')]])])],
           reply_error = JNull\<rparr>
        else
          \<lparr>reply_data = JObj [(''success'', JBool True), (''data'', JObj [(''code'', JNum (number_of 0))])],
           reply_error = JNull\<rparr>)"

definition rent :: expenseData where
  "rent =
     \<lparr>vendor_id = None, vendor_name = Some ''Landlord'', reference_number = None,
      account_id = None, expense_date = ''2024-01-05'', total = Fin False 1200 0,
      notes = None, attachments = None\<rparr>"

text \<open>A raw expense whose amount is the number \<open>-5\<close>.\<close>

definition refund :: jsval where
  "refund = JObj [(''amount'', JNum (Fin True 5 0))]"



text \<open>A transport error of the remote boundary, and a runtime with a fixed clock.\<close>

definition network_down :: jsval where
  "network_down = JObj [(''message'', JStr ''network down'')]"

definition plain_runtime :: runtime where
  "plain_runtime = \<lparr>today = (\<lambda>i. ''2024-06-01''), now_ms = (\<lambda>i. 42), subtract = (\<lambda>a b. NaN)\<rparr>"





section \<open>Properties of the list operations\<close>

lemma with_limit_zero:
  "with_limit (Some (fl\<lparr>limit := Some (number_of 0)\<rparr>)) ps = with_limit (Some (fl\<lparr>limit := None\<rparr>)) ps"
  by (simp add: with_limit_def number_of_def)

lemma with_offset_zero:
  "with_offset (Some (fl\<lparr>offset := Some (number_of 0)\<rparr>)) ps = with_offset (Some (fl\<lparr>offset := None\<rparr>)) ps"
  by (simp add: with_offset_def number_of_def)

lemma with_limit_ignores_offset:
  "with_limit (Some (fl\<lparr>offset := x\<rparr>)) ps = with_limit (Some fl) ps"
  by (simp add: with_limit_def)

lemma with_offset_ignores_limit:
  "with_offset (Some (fl\<lparr>limit := x\<rparr>)) ps = with_offset (Some fl) ps"
  by (simp add: with_offset_def)

lemma with_status_ignores:
  "with_status (Some (fl\<lparr>limit := x\<rparr>)) ps = with_status (Some fl) ps"
  "with_status (Some (fl\<lparr>offset := y\<rparr>)) ps = with_status (Some fl) ps"
  by (simp_all add: with_status_def)

lemmas zero_filter_simps =
  with_limit_zero with_offset_zero with_limit_ignores_offset with_offset_ignores_limit
  with_status_ignores

text \<open>
  Claim C10. For each of the four list operations (\<open>getInvoices\<close>, \<open>getCustomers\<close>,
  \<open>getVendors\<close>, \<open>getExpenses\<close>), filters whose \<open>limit\<close> is \<open>0\<close>, or whose \<open>offset\<close> is
  \<open>0\<close>, give the same call as filters in which that field is absent: the same endpoint
  string is dispatched (and so the same outcome comes back), the zero is not sent.
\<close>

theorem zero_limit_offset_omitted:
  "getInvoices invoke u og (Some (fl\<lparr>limit := Some (number_of 0)\<rparr>))
     = getInvoices invoke u og (Some (fl\<lparr>limit := None\<rparr>))
   \<and> getInvoices invoke u og (Some (fl\<lparr>offset := Some (number_of 0)\<rparr>))
     = getInvoices invoke u og (Some (fl\<lparr>offset := None\<rparr>))
   \<and> getCustomers invoke u og (Some (fl\<lparr>limit := Some (number_of 0)\<rparr>))
     = getCustomers invoke u og (Some (fl\<lparr>limit := None\<rparr>))
   \<and> getCustomers invoke u og (Some (fl\<lparr>offset := Some (number_of 0)\<rparr>))
     = getCustomers invoke u og (Some (fl\<lparr>offset := None\<rparr>))
   \<and> getVendors invoke u og (Some (fl\<lparr>limit := Some (number_of 0)\<rparr>))
     = getVendors invoke u og (Some (fl\<lparr>limit := None\<rparr>))
   \<and> getVendors invoke u og (Some (fl\<lparr>offset := Some (number_of 0)\<rparr>))
     = getVendors invoke u og (Some (fl\<lparr>offset := None\<rparr>))
   \<and> getExpenses td nw invoke u og (Some (fl\<lparr>limit := Some (number_of 0)\<rparr>))
     = getExpenses td nw invoke u og (Some (fl\<lparr>limit := None\<rparr>))
   \<and> getExpenses td nw invoke u og (Some (fl\<lparr>offset := Some (number_of 0)\<rparr>))
     = getExpenses td nw invoke u og (Some (fl\<lparr>offset := None\<rparr>))"
  by (simp add: getInvoices_def getCustomers_def getVendors_def getExpenses_def
      invoices_endpoint_def customers_endpoint_def vendors_endpoint_def expenses_endpoint_def
      zero_filter_simps)

section \<open>Properties of the dispatcher's callers\<close>

lemma map_of_set_prop: "map_of (set_prop k v ps) k = Some v"
  by (simp add: set_prop_def update_conv')

lemma fst_zohoBooksApiCall:
  "fst (zohoBooksApiCall invoke u og ep m b)
     = envelope_result (invoke ''zoho-api-call'' (api_request u og ep m b))"
  by (simp add: zohoBooksApiCall_def Let_def)

lemma snd_zohoBooksApiCall:
  "snd (zohoBooksApiCall invoke u og ep m b) = [(''zoho-api-call'', api_request u og ep m b)]"
  by (simp add: zohoBooksApiCall_def Let_def)

lemma with_contacts_contacts:
  "get_prop (with_contacts d) ''contacts''
     = (if isArray (opt_prop d ''contacts'') then opt_prop d ''contacts'' else JArr [])"
  by (cases "opt_prop d ''contacts''")
     (simp_all add: with_contacts_def js_or_def Let_def map_of_set_prop)

text \<open>
  Claim C9. Whenever the dispatcher returns data whose \<open>contacts\<close> field is missing or
  is not an array (the data may even be \<open>null\<close> or a primitive), \<open>getCustomers\<close> and
  \<open>getVendors\<close> do not raise: each returns a result whose \<open>contacts\<close> field is the
  empty array.
\<close>

theorem contacts_always_array:
  "(fst (zohoBooksApiCall invoke u og (customers_endpoint f) GET JUndefined) = Inr d
      \<and> \<not> isArray (opt_prop d ''contacts'')
      \<longrightarrow> (\<exists>r. fst (getCustomers invoke u og f) = Inr r \<and> get_prop r ''contacts'' = JArr []))
   \<and> (fst (zohoBooksApiCall invoke u og (vendors_endpoint f) GET JUndefined) = Inr d
      \<and> \<not> isArray (opt_prop d ''contacts'')
      \<longrightarrow> (\<exists>r. fst (getVendors invoke u og f) = Inr r \<and> get_prop r ''contacts'' = JArr []))"
  by (simp add: getCustomers_def getVendors_def io_bind_def io_return_def with_contacts_contacts)

theorem contacts_always_array_witness:
  "fst (getCustomers (answering (JObj [(''contacts'', JStr ''none'')])) ''u1'' ''org1'' None)
      = Inr (JObj [(''contacts'', JArr [])])
   \<and> fst (getVendors (answering (JObj [(''page'', JNum (number_of 1))])) ''u1'' ''org1'' None)
      = Inr (JObj [(''page'', JNum (number_of 1)), (''contacts'', JArr [])])"
  using contacts_always_array [of "answering (JObj [(''contacts'', JStr ''none'')])"
          "''u1''" "''org1''" None "JObj [(''contacts'', JStr ''none'')]"]
        contacts_always_array [of "answering (JObj [(''page'', JNum (number_of 1))])"
          "''u1''" "''org1''" None "JObj [(''page'', JNum (number_of 1))]"]
  by (simp add: getCustomers_def getVendors_def io_bind_def io_return_def fst_zohoBooksApiCall
      answering_def envelope_result_def opt_prop_def with_contacts_def js_or_def set_prop_def)

lemma vendorPayload_contact_type: "get_prop (vendorPayload vd) ''contact_type'' = JStr ''vendor''"
  by (simp add: vendorPayload_def map_of_set_prop)

text \<open>
  \<open>createVendor\<close> does stamp the discriminator: whatever the caller's payload, the body
  it dispatches carries \<open>contact_type = 'vendor'\<close>.
\<close>

lemma createVendor_stamps_contact_type:
  "snd (createVendor invoke u og vd)
     = [(''zoho-api-call'', api_request u og ''/contacts'' POST (vendorPayload vd))]
   \<and> get_prop (vendorPayload vd) ''contact_type'' = JStr ''vendor''"
  by (simp add: createVendor_def snd_zohoBooksApiCall vendorPayload_contact_type)

text \<open>
  Claim C3 says that \<open>createVendor\<close> and \<open>createCustomer\<close> both always set
  \<open>contact_type\<close> in the outbound body. \<open>createCustomer\<close> does not: it dispatches the
  caller's payload as it is, so for the payload \<open>{contact_name: 'Acme'}\<close> the one request
  it sends has a body without \<open>contact_type\<close>.
\<close>

theorem createCustomer_omits_contact_type:
  "snd (createCustomer invoke u og acme)
     = [(''zoho-api-call'', api_request u og ''/contacts'' POST acme)]
   \<and> get_prop (api_request u og ''/contacts'' POST acme) ''body'' = acme
   \<and> get_prop acme ''contact_type'' = JUndefined"
  by (simp add: createCustomer_def snd_zohoBooksApiCall acme_def api_request_def)

section \<open>Properties of the token store\<close>

lemma snd_refreshZohoBooksToken:
  "snd (refreshZohoBooksToken invoke uid) = [(''zoho-token-refresh'', JObj [(''userId'', JStr uid)])]"
  by (simp add: refreshZohoBooksToken_def Let_def)

text \<open>
  Claim C1, as stated, is false: a record whose \<open>token_expires_at\<close> is in the past but
  whose \<open>access_token\<close> is cleared (a disconnected account) makes \<open>getValidAccessToken\<close>
  fail with \<open>No Zoho Books integration found\<close> without invoking the refresh procedure.
\<close>

theorem expired_record_without_token_not_refreshed:
  "select_single store ''carol'' = Some carol
   \<and> token_expires_at carol = Some 500 \<and> (500::int) < 1000
   \<and> getValidAccessToken refreshing store 1000 ''carol''
        = (Inl (Error ''No Zoho Books integration found''), [])"
  by (simp add: select_single_def store_def alice_def bob_def carol_def getValidAccessToken_def
      io_throw_def)

text \<open>
  Claim C1, amended. For every integration record that is read without error and holds a
  non-empty \<open>access_token\<close>: if its \<open>token_expires_at\<close> is strictly in the past,
  \<open>getValidAccessToken\<close> is the refresh procedure (it invokes \<open>zoho-token-refresh\<close>
  exactly once, invokes nothing else, and returns the refresh outcome, not the stored
  token); if its \<open>token_expires_at\<close> is in the future, it returns the stored token and
  invokes nothing.
\<close>

theorem token_freshness:
  assumes "select_single t uid = Some r"
    and "access_token r = Some tok" and "tok \<noteq> []"
    and "token_expires_at r = Some expiry"
  shows "(expiry < now \<longrightarrow>
            getValidAccessToken invoke t now uid = refreshZohoBooksToken invoke uid
            \<and> snd (getValidAccessToken invoke t now uid)
                = [(''zoho-token-refresh'', JObj [(''userId'', JStr uid)])])
       \<and> (now < expiry \<longrightarrow> getValidAccessToken invoke t now uid = (Inr (JStr tok), []))"
  using assms by (simp add: getValidAccessToken_def io_return_def snd_refreshZohoBooksToken)

theorem token_freshness_witness:
  "getValidAccessToken refreshing store 1000 ''alice''
     = (Inr (JStr ''tok-new''), [(''zoho-token-refresh'', JObj [(''userId'', JStr ''alice'')])])
   \<and> getValidAccessToken refreshing store 1000 ''bob'' = (Inr (JStr ''tok-bob''), [])"
  using token_freshness [of store "''alice''" alice "''tok-old''" 500 1000 refreshing]
        token_freshness [of store "''bob''" bob "''tok-bob''" 5000 1000 refreshing]
  by (simp add: select_single_def store_def alice_def bob_def carol_def refreshing_def
      refreshZohoBooksToken_def opt_prop_def Let_def)

lemma disconnect_rows:
  assumes "\<not> truthy (fault t)"
  shows "disconnectZohoBooks now uid t
    = (Inr (JObj [(''success'', JBool True)]),
       t\<lparr>rows := map (\<lambda>r. if user_id r = uid then disconnect_row now r else r) (rows t)\<rparr>)"
  using assms by (simp add: disconnectZohoBooks_def)

lemma map_single_update:
  assumes "i < length xs" and "\<forall>j < length xs. P (xs ! j) \<longleftrightarrow> j = i"
  shows "map (\<lambda>x. if P x then f x else x) xs = xs[i := f (xs ! i)]"
proof (rule nth_equalityI)
  show "length (map (\<lambda>x. if P x then f x else x) xs) = length (xs[i := f (xs ! i)])" by simp
next
  fix j assume "j < length (map (\<lambda>x. if P x then f x else x) xs)"
  then have j: "j < length xs" by simp
  show "map (\<lambda>x. if P x then f x else x) xs ! j = xs[i := f (xs ! i)] ! j"
  proof (cases "j = i")
    case True
    with assms j show ?thesis by simp
  next
    case False
    with assms j have "\<not> P (xs ! j)" by blast
    with False j show ?thesis by simp
  qed
qed

lemma user_id_disconnect_row [simp]: "user_id (disconnect_row now r) = user_id r"
  by (simp add: disconnect_row_def)

text \<open>
  Claim C8. With a healthy store and the user's record being the one at position \<open>i\<close>
  (no other row has that \<open>user_id\<close>), \<open>disconnectZohoBooks\<close> succeeds and changes that one
  record only (one write): \<open>access_token\<close> and \<open>refresh_token\<close> are cleared,
  \<open>is_connected\<close> is \<open>False\<close> and \<open>disconnected_at\<close> is stamped. A second call, at any
  later time, succeeds as well and leaves the same connection state: only the stamp
  \<open>disconnected_at\<close> is renewed.
\<close>

theorem disconnect_idempotent:
  assumes healthy: "\<not> truthy (fault t)"
    and i: "i < length (rows t)"
    and uniq: "\<forall>j < length (rows t). user_id (rows t ! j) = uid \<longleftrightarrow> j = i"
  shows "fst (disconnectZohoBooks now1 uid t) = Inr (JObj [(''success'', JBool True)])
    \<and> rows (snd (disconnectZohoBooks now1 uid t)) = (rows t)[i := disconnect_row now1 (rows t ! i)]
    \<and> disconnect_row now1 (rows t ! i)
        = (rows t ! i)\<lparr>is_connected := False, access_token := None, refresh_token := None,
                        disconnected_at := Some now1\<rparr>
    \<and> fst (disconnectZohoBooks now2 uid (snd (disconnectZohoBooks now1 uid t)))
        = Inr (JObj [(''success'', JBool True)])
    \<and> rows (snd (disconnectZohoBooks now2 uid (snd (disconnectZohoBooks now1 uid t))))
        = (rows t)[i := (disconnect_row now1 (rows t ! i))\<lparr>disconnected_at := Some now2\<rparr>]"
proof -
  let ?t1 = "snd (disconnectZohoBooks now1 uid t)"
  have r1: "rows ?t1 = (rows t)[i := disconnect_row now1 (rows t ! i)]"
    using healthy map_single_update [OF i, of "\<lambda>r. user_id r = uid" "disconnect_row now1"] uniq
    by (simp add: disconnect_rows)
  have h1: "\<not> truthy (fault ?t1)"
    using healthy by (simp add: disconnect_rows)
  have i1: "i < length (rows ?t1)"
    using i r1 by simp
  have uniq1: "\<forall>j < length (rows ?t1). user_id (rows ?t1 ! j) = uid \<longleftrightarrow> j = i"
    using uniq i r1 by (auto simp: nth_list_update)
  have r2: "rows (snd (disconnectZohoBooks now2 uid ?t1))
      = (rows ?t1)[i := disconnect_row now2 (rows ?t1 ! i)]"
    using h1 map_single_update [OF i1, of "\<lambda>r. user_id r = uid" "disconnect_row now2"] uniq1
    by (simp add: disconnect_rows)
  have again: "disconnect_row now2 (disconnect_row now1 r)
      = (disconnect_row now1 r)\<lparr>disconnected_at := Some now2\<rparr>" for r
    by (simp add: disconnect_row_def)
  show ?thesis
    using healthy h1 r1 r2 i again by (simp add: disconnect_rows disconnect_row_def)
qed

theorem disconnect_idempotent_witness:
  "fst (disconnectZohoBooks 1000 ''alice'' store) = Inr (JObj [(''success'', JBool True)])
   \<and> rows (snd (disconnectZohoBooks 1000 ''alice'' store))
       = [alice\<lparr>is_connected := False, access_token := None, refresh_token := None,
                disconnected_at := Some 1000\<rparr>, bob, carol]
   \<and> fst (disconnectZohoBooks 2000 ''alice'' (snd (disconnectZohoBooks 1000 ''alice'' store)))
       = Inr (JObj [(''success'', JBool True)])
   \<and> rows (snd (disconnectZohoBooks 2000 ''alice'' (snd (disconnectZohoBooks 1000 ''alice'' store))))
       = [alice\<lparr>is_connected := False, access_token := None, refresh_token := None,
                disconnected_at := Some 2000\<rparr>, bob, carol]"
  using disconnect_idempotent [of store 0 "''alice''" 1000 2000]
  by (simp add: store_def alice_def bob_def carol_def disconnect_row_def All_less_Suc
      numeral_3_eq_3)

section \<open>Properties of expense creation\<close>

lemma filter_expense_Inr:
  "filter_expense xs = Inr ys \<Longrightarrow>
     ys = filter (\<lambda>acc. is_string (get_prop acc ''account_type'') ''expense'') xs"
  by (induction xs arbitrary: ys) (auto split: if_splits sum.splits)

lemma isArray_truthy: "isArray v \<Longrightarrow> truthy v"
  by (cases v) simp_all

lemma elements_not_array: "\<not> isArray v \<Longrightarrow> elements v = []"
  by (cases v) simp_all

lemma isArray_opt_prop: "isArray (opt_prop d k) \<Longrightarrow> get_prop d k = opt_prop d k"
  by (auto simp: opt_prop_def split: if_splits)

lemma expense_accounts_of_Inr:
  assumes "expense_accounts_of d = Inr accs"
  shows "accs = map account_summary
           (filter (\<lambda>acc. is_string (get_prop acc ''account_type'') ''expense'')
              (elements (opt_prop d ''chartofaccounts'')))"
proof (cases "isArray (opt_prop d ''chartofaccounts'')")
  case True
  then have g: "get_prop d ''chartofaccounts'' = opt_prop d ''chartofaccounts''"
    by (rule isArray_opt_prop)
  from True have t: "truthy (opt_prop d ''chartofaccounts'')" by (rule isArray_truthy)
  from assms True g t show ?thesis
    by (auto simp: expense_accounts_of_def split: sum.splits dest: filter_expense_Inr)
next
  case False
  then have e: "elements (opt_prop d ''chartofaccounts'') = []" by (rule elements_not_array)
  have "\<not> (truthy (opt_prop d ''chartofaccounts'') \<and> isArray (get_prop d ''chartofaccounts''))"
    using False by (auto simp: opt_prop_def split: if_splits)
  with assms e show ?thesis by (simp add: expense_accounts_of_def)
qed

lemma expensePayload_amount: "get_prop (expensePayload ed acct) ''amount'' = JNum (total ed)"
  by (simp add: expensePayload_def)

lemma expensePayload_account_id: "get_prop (expensePayload ed acct) ''account_id'' = acct"
  by (simp add: expensePayload_def)

lemma select_account_absent:
  assumes "\<not> given (account_id ed)"
  shows "select_account invoke u og ed =
     io_bind (getExpenseAccounts invoke u og)
            (\<lambda>expenseAccounts.
               case expenseAccounts of
                 [] \<Rightarrow> io_throw no_expense_account
               | selectedAccount # others \<Rightarrow> io_return (get_prop selectedAccount ''account_id''))"
  using assms by (cases "account_id ed") (simp_all add: select_account_def)

lemma select_account_given:
  assumes "given (account_id ed)"
  shows "\<exists>a. select_account invoke u og ed = io_return (JStr a)"
  using assms by (cases "account_id ed") (auto simp: select_account_def)

lemma snd_getExpenseAccounts:
  "snd (getExpenseAccounts invoke u og) = [(''zoho-api-call'', api_request u og ''/chartofaccounts'' GET JUndefined)]"
  by (simp add: getExpenseAccounts_def io_bind_def io_lift_def snd_zohoBooksApiCall split: sum.splits)

lemma fst_getExpenseAccounts:
  "fst (zohoBooksApiCall invoke u og ''/chartofaccounts'' GET JUndefined) = Inr d
    \<Longrightarrow> fst (getExpenseAccounts invoke u og) = expense_accounts_of d"
  by (simp add: getExpenseAccounts_def io_bind_def io_lift_def)

lemma api_request_props:
  "get_prop (api_request u og ep m b) ''method'' = JStr (method_name m)"
  "get_prop (api_request u og ep m b) ''body'' = b"
  "get_prop (api_request u og ep m b) ''endpoint'' = JStr ep"
  by (simp_all add: api_request_def)

lemma createExpense_posts_amount:
  "(name, req) \<in> set (snd (createExpense invoke u og ed)) \<Longrightarrow> get_prop req ''method'' = JStr ''POST''
     \<Longrightarrow> get_prop (get_prop req ''body'') ''amount'' = JNum (total ed)"
proof (cases "given (account_id ed)")
  case True
  then obtain a where "select_account invoke u og ed = io_return (JStr a)"
    using select_account_given by blast
  moreover assume "(name, req) \<in> set (snd (createExpense invoke u og ed))" "get_prop req ''method'' = JStr ''POST''"
  ultimately show ?thesis
    by (auto simp: createExpense_def io_bind_def io_return_def snd_zohoBooksApiCall api_request_props expensePayload_amount)
next
  case False
  assume "(name, req) \<in> set (snd (createExpense invoke u og ed))" "get_prop req ''method'' = JStr ''POST''"
  with False show ?thesis
    by (auto simp: createExpense_def select_account_absent io_bind_def io_return_def io_throw_def
        snd_zohoBooksApiCall snd_getExpenseAccounts api_request_props expensePayload_amount
        split: sum.splits list.splits)
qed

lemma createExpense_selects:
  assumes "\<not> given (account_id ed)"
    and "fst (zohoBooksApiCall invoke u og ''/chartofaccounts'' GET JUndefined) = Inr d"
    and "expense_accounts_of d = Inr accs"
  shows "(case accs of
            [] \<Rightarrow> createExpense invoke u og ed = (Inl no_expense_account, [(''zoho-api-call'', api_request u og ''/chartofaccounts'' GET JUndefined)])
          | a # others \<Rightarrow>
              createExpense invoke u og ed
                = (fst (zohoBooksApiCall invoke u og ''/expenses'' POST
                          (expensePayload ed (get_prop a ''account_id''))),
                   [(''zoho-api-call'', api_request u og ''/chartofaccounts'' GET JUndefined),
                    (''zoho-api-call'', api_request u og ''/expenses'' POST
                          (expensePayload ed (get_prop a ''account_id'')))]))"
  using assms fst_getExpenseAccounts [OF assms(2)]
  by (auto simp: createExpense_def select_account_absent io_bind_def io_return_def io_throw_def
        snd_zohoBooksApiCall snd_getExpenseAccounts prod_eq_iff
        split: list.splits)


text \<open>
  Claim C5. Every \<open>POST\<close> that \<open>createExpense\<close> dispatches carries the caller's
  \<open>total\<close> under the key \<open>amount\<close>. Called without an \<open>account_id\<close>, it first fetches
  the chart of accounts; when that fetch returns data from which the expense accounts
  can be read, these are the accounts of the chart whose \<open>account_type\<close> is
  \<open>'expense'\<close>, in the chart's order; if there is none the call fails with the
  no-expense-account error and nothing is posted; otherwise the expense is posted with
  the \<open>account_id\<close> of the first of them.
\<close>

theorem createExpense_account_policy:
  "(\<forall>(name, req) \<in> set (snd (createExpense invoke u og ed)).
        get_prop req ''method'' = JStr ''POST''
        \<longrightarrow> get_prop (get_prop req ''body'') ''amount'' = JNum (total ed))
   \<and> (\<not> given (account_id ed) \<longrightarrow>
        (\<exists>rest. snd (createExpense invoke u og ed)
                  = (''zoho-api-call'', api_request u og ''/chartofaccounts'' GET JUndefined) # rest)
        \<and> (\<forall>d accs.
              fst (zohoBooksApiCall invoke u og ''/chartofaccounts'' GET JUndefined) = Inr d
              \<and> expense_accounts_of d = Inr accs
              \<longrightarrow> accs = map account_summary
                           (filter (\<lambda>acc. is_string (get_prop acc ''account_type'') ''expense'')
                              (elements (opt_prop d ''chartofaccounts'')))
                  \<and> (case accs of
                        [] \<Rightarrow>
                          createExpense invoke u og ed
                            = (Inl no_expense_account,
                               [(''zoho-api-call'', api_request u og ''/chartofaccounts'' GET JUndefined)])
                      | a # others \<Rightarrow>
                          createExpense invoke u og ed
                            = (fst (zohoBooksApiCall invoke u og ''/expenses'' POST
                                      (expensePayload ed (get_prop a ''account_id''))),
                               [(''zoho-api-call'', api_request u og ''/chartofaccounts'' GET JUndefined),
                                (''zoho-api-call'', api_request u og ''/expenses'' POST
                                      (expensePayload ed (get_prop a ''account_id'')))]))))"
proof (intro conjI impI allI)
  show "\<forall>(name, req) \<in> set (snd (createExpense invoke u og ed)).
        get_prop req ''method'' = JStr ''POST''
        \<longrightarrow> get_prop (get_prop req ''body'') ''amount'' = JNum (total ed)"
    using createExpense_posts_amount by blast
next
  assume "\<not> given (account_id ed)"
  then show "\<exists>rest. snd (createExpense invoke u og ed)
                  = (''zoho-api-call'', api_request u og ''/chartofaccounts'' GET JUndefined) # rest"
    by (simp add: createExpense_def select_account_absent io_bind_def snd_getExpenseAccounts
        split: sum.splits)
next
  fix d accs
  assume "fst (zohoBooksApiCall invoke u og ''/chartofaccounts'' GET JUndefined) = Inr d
              \<and> expense_accounts_of d = Inr accs"
  then show "accs = map account_summary
                           (filter (\<lambda>acc. is_string (get_prop acc ''account_type'') ''expense'')
                              (elements (opt_prop d ''chartofaccounts'')))"
    using expense_accounts_of_Inr by blast
next
  fix d accs
  assume "\<not> given (account_id ed)"
    and "fst (zohoBooksApiCall invoke u og ''/chartofaccounts'' GET JUndefined) = Inr d
              \<and> expense_accounts_of d = Inr accs"
  then show "(case accs of
                        [] \<Rightarrow>
                          createExpense invoke u og ed
                            = (Inl no_expense_account,
                               [(''zoho-api-call'', api_request u og ''/chartofaccounts'' GET JUndefined)])
                      | a # others \<Rightarrow>
                          createExpense invoke u og ed
                            = (fst (zohoBooksApiCall invoke u og ''/expenses'' POST
                                      (expensePayload ed (get_prop a ''account_id''))),
                               [(''zoho-api-call'', api_request u og ''/chartofaccounts'' GET JUndefined),
                                (''zoho-api-call'', api_request u og ''/expenses'' POST
                                      (expensePayload ed (get_prop a ''account_id'')))]))"
    using createExpense_selects by blast
qed

lemma books_chart:
  "fst (zohoBooksApiCall books ''u1'' ''org1'' ''/chartofaccounts'' GET JUndefined)
    = Inr (JObj [(''chartofaccounts'', JArr
                [JObj [(''account_id'', JStr ''a-sales''), (''account_name'', JStr ''Sales''),
                       (''account_type'', JStr ''income'')],
                 JObj [(''account_id'', JStr ''a-rent''), (''account_name'', JStr ''Rent''),
                       (''account_type'', JStr ''expense'')],
                 JObj [(''account_id'', JStr ''a-travel''), (''account_name'', JStr ''Travel''),
                       (''account_type'', JStr ''expense'')]])])"
  by (simp add: fst_zohoBooksApiCall books_def api_request_def envelope_result_def opt_prop_def)

theorem createExpense_account_policy_witness:
  "createExpense books ''u1'' ''org1'' rent
     = (Inr (JObj [(''code'', JNum (number_of 0))]),
        [(''zoho-api-call'', api_request ''u1'' ''org1'' ''/chartofaccounts'' GET JUndefined),
         (''zoho-api-call'', api_request ''u1'' ''org1'' ''/expenses'' POST
            (JObj [(''vendor_name'', JStr ''Landlord''), (''account_id'', JStr ''a-rent''),
                   (''expense_date'', JStr ''2024-01-05''), (''amount'', JNum (Fin False 1200 0))]))])
   \<and> createExpense (answering (JObj [(''chartofaccounts'', JArr [])])) ''u1'' ''org1'' rent
     = (Inl no_expense_account,
        [(''zoho-api-call'', api_request ''u1'' ''org1'' ''/chartofaccounts'' GET JUndefined)])"
  using createExpense_account_policy [of books "''u1''" "''org1''" rent]
        createExpense_account_policy [of "answering (JObj [(''chartofaccounts'', JArr [])])" "''u1''" "''org1''" rent]
  by (simp add: books_chart rent_def expense_accounts_of_def opt_prop_def account_summary_def
        expensePayload_def fst_zohoBooksApiCall answering_def envelope_result_def api_request_def books_def)

section \<open>Properties of the expense normalizer\<close>

lemma numToString_minus_five: "numToString (Fin True 5 0) = ''-5''"
  by code_simp

lemma parseFloat_minus_five: "parseFloat ''-5'' = Fin True 5 0"
  by code_simp

lemma parseFloat_negative_decimal: "parseFloat ''-12.50'' = Fin True 1250 (- 2)"
  by code_simp

lemma expense_amount_refund: "expense_amount refund = Fin True 5 0"
  by (simp add: refund_def expense_amount_def parsed_amount_def numToString_minus_five
      parseFloat_minus_five del: numToString.simps)

lemma expense_amount_negative_string:
  "expense_amount (JObj [(''amount'', JStr ''-12.50'')]) = Fin True 1250 (- 2)"
  by (simp add: expense_amount_def parsed_amount_def parseFloat_negative_decimal)

text \<open>The part of the amount rule that the code keeps: the amount is never \<open>NaN\<close>.\<close>

lemma expense_amount_not_NaN: "\<not> isNaN (expense_amount e)"
proof -
  have pos: "num_positive n \<Longrightarrow> \<not> isNaN n" for n
    by (cases n) simp_all
  have par: "\<not> isNaN (parsed_amount v)" for v
    by (simp add: parsed_amount_def Let_def)
  show ?thesis
    by (simp add: expense_amount_def Let_def pos par)
qed

text \<open>
  Claim C2 says that the normalized amount is never negative. The numeric branches do
  require \<open>> 0\<close>, but a value they reject is handed to the string-parsing branches, which
  accept any parse: the raw expense \<open>{amount: -5}\<close> is normalized to the amount \<open>-5\<close>,
  and \<open>{amount: "-12.50"}\<close> to \<open>-12.5\<close>.
\<close>

theorem negative_amount_accepted:
  "expense_amount refund = Fin True 5 0
   \<and> num_negative (expense_amount refund)
   \<and> (\<exists>n. normalizedExpenses td nw [refund] = Inr [n] \<and> get_prop n ''amount'' = JNum (Fin True 5 0))
   \<and> expense_amount (JObj [(''amount'', JStr ''-12.50'')]) = Fin True 1250 (- 2)"
  by (simp add: expense_amount_refund expense_amount_negative_string normalizedExpenses_def
        normalize_expense_def refund_def [symmetric])
     (simp add: refund_def)

section \<open>Properties of the dispatcher\<close>

























section \<open>Propagation of failures\<close>

lemma failing_result:
  "envelope_result (failing network_down name req) = Inl (Error ''network down'')"
  by (simp add: failing_def network_down_def envelope_result_def opt_prop_def js_or_def)

text \<open>
  Claim C4, as stated, is false on both counts: when the remote boundary fails,
  \<open>getProfitAndLoss\<close> and \<open>getBalance\<close> reject with the dispatcher's error (their
  \<open>catch\<close> blocks throw it again) instead of returning a zero-valued structure, while
  \<open>getOrganizationDetails\<close> swallows the failure and returns the default currency.
\<close>

theorem report_failures_rethrown:
  "fst (getProfitAndLoss (\<lambda>a b. NaN) (failing network_down) ''u1'' ''org1'') = Inl (Error ''network down'')
   \<and> fst (getBalance (failing network_down) ''u1'' ''org1'') = Inl (Error ''network down'')
   \<and> fst (getOrganizationDetails (failing network_down) ''u1'' ''org1'') = Inr default_currency"
  by (simp add: getProfitAndLoss_def getBalance_def getOrganizationDetails_def io_catch_def io_bind_def
      io_throw_def io_return_def fst_zohoBooksApiCall failing_result)

lemma io_bind_failed:
  "fst m = Inl e \<Longrightarrow> io_bind m f = (Inl e, snd m)"
  by (simp add: io_bind_def)

lemma io_rethrow: "io_catch m (\<lambda>error. io_throw error) = m"
  by (cases m) (simp add: io_catch_def io_throw_def split: sum.splits)

lemma dispatch_failed:
  assumes "(name, req) \<in> set (snd (zohoBooksApiCall invoke u og ep m b))"
    and "envelope_result (invoke name req) = Inl e"
  shows "fst (zohoBooksApiCall invoke u og ep m b) = Inl e"
  using assms by (simp add: snd_zohoBooksApiCall fst_zohoBooksApiCall)

lemma bind_pure_failed:
  assumes "(name, req) \<in> set (snd (io_bind (zohoBooksApiCall invoke u og ep m b) (\<lambda>d. io_return (g d))))"
    and "envelope_result (invoke name req) = Inl e"
  shows "fst (io_bind (zohoBooksApiCall invoke u og ep m b) (\<lambda>d. io_return (g d))) = Inl e"
  using assms
  by (auto simp: io_bind_def io_return_def snd_zohoBooksApiCall fst_zohoBooksApiCall split: sum.splits)

lemma getExpenseAccounts_failed:
  assumes "(name, req) \<in> set (snd (getExpenseAccounts invoke u og))"
    and "envelope_result (invoke name req) = Inl e"
  shows "fst (getExpenseAccounts invoke u og) = Inl e"
  using assms
  by (auto simp: getExpenseAccounts_def io_bind_def io_lift_def snd_zohoBooksApiCall fst_zohoBooksApiCall split: sum.splits)

lemma getExpenses_failed:
  assumes "(name, req) \<in> set (snd (getExpenses td nw invoke u og f))"
    and "envelope_result (invoke name req) = Inl e"
  shows "fst (getExpenses td nw invoke u og f) = Inl e"
  using assms
  by (auto simp: getExpenses_def io_bind_def io_lift_def io_return_def snd_zohoBooksApiCall
      fst_zohoBooksApiCall split: sum.splits)

lemma createExpense_failed:
  assumes "(name, req) \<in> set (snd (createExpense invoke u og ed))"
    and "envelope_result (invoke name req) = Inl e"
  shows "fst (createExpense invoke u og ed) = Inl e"
proof (cases "given (account_id ed)")
  case True
  then obtain a where "select_account invoke u og ed = io_return (JStr a)"
    using select_account_given by blast
  with assms show ?thesis
    by (auto simp: createExpense_def io_bind_def io_return_def snd_zohoBooksApiCall fst_zohoBooksApiCall)
next
  case False
  show ?thesis
  proof (cases "fst (getExpenseAccounts invoke u og)")
    case (Inl e')
    with assms False have "(name, req) \<in> set (snd (getExpenseAccounts invoke u og))"
      by (simp add: createExpense_def select_account_absent io_bind_def)
    then have "fst (getExpenseAccounts invoke u og) = Inl e"
      using assms(2) by (rule getExpenseAccounts_failed)
    with False show ?thesis
      by (simp add: createExpense_def select_account_absent io_bind_def)
  next
    case (Inr accs)
    then have ok: "envelope_result (invoke ''zoho-api-call'' (api_request u og ''/chartofaccounts'' GET JUndefined)) \<noteq> Inl e"
      by (auto simp: getExpenseAccounts_def io_bind_def fst_zohoBooksApiCall split: sum.splits)
    with assms False Inr show ?thesis
      by (cases accs)
         (auto simp: createExpense_def select_account_absent io_bind_def io_return_def io_throw_def
            snd_zohoBooksApiCall fst_zohoBooksApiCall snd_getExpenseAccounts)
  qed
qed


lemma getOrganizationDetails_failed:
  assumes "(name, req) \<in> set (snd (getOrganizationDetails invoke u og))"
    and "envelope_result (invoke name req) = Inl e"
  shows "fst (getOrganizationDetails invoke u og) = Inr default_currency"
  using assms
  by (auto simp: getOrganizationDetails_def io_catch_def io_bind_def io_return_def
      snd_zohoBooksApiCall fst_zohoBooksApiCall split: sum.splits)

text \<open>
  Claim C4, amended. In every operation that goes through the dispatcher, the Profit and
  Loss and Balance Sheet reports included, a failed dispatch rejects the operation with
  the dispatcher's error; the sole exception is \<open>getOrganizationDetails\<close>, which on a
  failed dispatch returns the default \<open>{currency_code: 'USD', currency_symbol: '$'}\<close>.
\<close>

theorem failures_propagate:
  assumes "(name, req) \<in> set (snd (perform rt invoke u og op))"
    and "envelope_result (invoke name req) = Inl e"
  shows "fst (perform rt invoke u og op)
           = (if op = GetOrganizationDetails then Inr default_currency else Inl e)"
proof (cases op)
  case GetOrganizationDetails
  with assms show ?thesis by (simp add: getOrganizationDetails_failed)
next
  case (GetInvoices f)
  with assms show ?thesis by (simp add: getInvoices_def dispatch_failed)
next
  case (GetInvoice i)
  with assms show ?thesis by (simp add: getInvoice_def dispatch_failed)
next
  case (CreateInvoice d)
  with assms show ?thesis by (simp add: createInvoice_def dispatch_failed)
next
  case (UpdateInvoice i d)
  with assms show ?thesis by (simp add: updateInvoice_def dispatch_failed)
next
  case (DeleteInvoice i)
  with assms show ?thesis by (simp add: deleteInvoice_def dispatch_failed)
next
  case (GetCustomers f)
  with assms show ?thesis by (simp add: getCustomers_def bind_pure_failed)
next
  case (GetCustomer i)
  with assms show ?thesis by (simp add: getCustomer_def dispatch_failed)
next
  case (CreateCustomer d)
  with assms show ?thesis by (simp add: createCustomer_def dispatch_failed)
next
  case (UpdateCustomer i d)
  with assms show ?thesis by (simp add: updateCustomer_def dispatch_failed)
next
  case (DeleteCustomer i)
  with assms show ?thesis by (simp add: deleteCustomer_def dispatch_failed)
next
  case (GetVendors f)
  with assms show ?thesis by (simp add: getVendors_def bind_pure_failed)
next
  case (GetVendor i)
  with assms show ?thesis by (simp add: getVendor_def dispatch_failed)
next
  case (CreateVendor d)
  with assms show ?thesis by (simp add: createVendor_def dispatch_failed)
next
  case (UpdateVendor i d)
  with assms show ?thesis by (simp add: updateVendor_def dispatch_failed)
next
  case (DeleteVendor i)
  with assms show ?thesis by (simp add: deleteVendor_def dispatch_failed)
next
  case GetChartOfAccounts
  with assms show ?thesis by (simp add: getChartOfAccounts_def dispatch_failed)
next
  case GetExpenseAccounts
  with assms have "(name, req) \<in> set (snd (getExpenseAccounts invoke u og))"
    by (auto simp: io_bind_def io_return_def split: sum.splits)
  then have "fst (getExpenseAccounts invoke u og) = Inl e"
    using assms(2) by (rule getExpenseAccounts_failed)
  with GetExpenseAccounts show ?thesis by (simp add: io_bind_def)
next
  case (GetExpenses f)
  with assms show ?thesis by (simp add: getExpenses_failed)
next
  case (GetExpense i)
  with assms show ?thesis by (simp add: getExpense_def dispatch_failed)
next
  case (UpdateExpense i d)
  with assms show ?thesis by (simp add: updateExpense_def dispatch_failed)
next
  case (DeleteExpense i)
  with assms show ?thesis by (simp add: deleteExpense_def dispatch_failed)
next
  case (CreateExpense ed)
  with assms show ?thesis by (simp add: createExpense_failed)
next
  case GetProfitAndLoss
  with assms show ?thesis by (simp add: getProfitAndLoss_def io_rethrow bind_pure_failed)
next
  case GetBalance
  with assms show ?thesis by (simp add: getBalance_def io_rethrow bind_pure_failed)
next
  case GetCashFlow
  with assms show ?thesis by (simp add: getCashFlow_def io_rethrow dispatch_failed)
next
  case GetExpenseReport
  with assms show ?thesis by (simp add: getExpenseReport_def io_rethrow dispatch_failed)
qed

theorem failures_propagate_witness:
  "fst (perform plain_runtime (failing network_down) ''u1'' ''org1'' GetProfitAndLoss)
     = Inl (Error ''network down'')
   \<and> fst (perform plain_runtime (failing network_down) ''u1'' ''org1'' (DeleteInvoice ''inv-7''))
     = Inl (Error ''network down'')
   \<and> fst (perform plain_runtime (failing network_down) ''u1'' ''org1'' GetOrganizationDetails)
     = Inr default_currency"
  using failures_propagate [of "''zoho-api-call''"
          "api_request ''u1'' ''org1'' ''/reports/profitandloss'' GET JUndefined"
          plain_runtime "failing network_down" "''u1''" "''org1''" GetProfitAndLoss "Error ''network down''"]
        failures_propagate [of "''zoho-api-call''"
          "api_request ''u1'' ''org1'' ''/invoices/inv-7'' DELETE JUndefined"
          plain_runtime "failing network_down" "''u1''" "''org1''" "DeleteInvoice ''inv-7''" "Error ''network down''"]
        failures_propagate [of "''zoho-api-call''"
          "api_request ''u1'' ''org1'' ''/organization'' GET JUndefined"
          plain_runtime "failing network_down" "''u1''" "''org1''" GetOrganizationDetails "Error ''network down''"]
  by (simp add: failing_result getProfitAndLoss_def getOrganizationDetails_def deleteInvoice_def
      io_catch_def io_bind_def io_throw_def io_return_def snd_zohoBooksApiCall fst_zohoBooksApiCall)

text \<open>The zero-valued report structures are what a successful dispatch with empty data gives.\<close>

lemma reports_default_on_empty_data:
  assumes "\<not> truthy d"
  shows "profit_and_loss_of sub d
           = JObj [(''total_income'', JNum (number_of 0)), (''total_expenses'', JNum (number_of 0)),
                   (''net_profit'', JNum (number_of 0))]"
    and "balance_of d = JObj [(''total_assets'', JNum (number_of 0)), (''total_liabilities'', JNum (number_of 0))]"
  using assms by (simp_all add: profit_and_loss_of_def balance_of_def)

section \<open>Totality of the expense normalizer\<close>


















lemma normalize_from_null:
  "nullish x \<Longrightarrow> normalize_from td nw i (x # xs) = Inl TypeError"
  by (simp add: normalize_expense_def)






section \<open>The fuel of the JSON reader\<close>

text \<open>
  Every reader that succeeds consumes at least one character, so the fuel that
  \<open>JSON_parse\<close> starts with is never used up: with any larger fuel the result is the
  same.
\<close>

lemma cons_char_Some:
  "cons_char c x = Some (str, r) \<Longrightarrow> \<exists>str'. x = Some (str', r)"
  by (cases x) (auto simp: cons_char_def)

lemma json_chars_consumes: "json_chars s = Some (str, r) \<Longrightarrow> length r < length s"
proof (induction s arbitrary: str rule: json_chars.induct)
  case 1
  then show ?case by simp
next
  case (2 c)
  then show ?case by (simp split: if_splits)
next
  case (3 c e cs)
  show ?case
  proof (cases "c = CHR 0x22")
    case True
    with "3.prems" show ?thesis by simp
  next
    case nq: False
    show ?thesis
    proof (cases "c = CHR 0x5C")
      case bs: True
      show ?thesis
      proof (cases "e = CHR ''u''")
        case True
        with "3.prems" nq bs obtain n where n: "hex4 cs = Some n" "n < 256"
          and cc: "cons_char (char_of n) (json_chars (drop 4 cs)) = Some (str, r)"
          by (auto split: option.splits if_splits)
        from cc obtain str' where "json_chars (drop 4 cs) = Some (str', r)"
          using cons_char_Some by blast
        with "3.IH"(1) [OF nq bs True n(1) n(2)] have "length r < length (drop 4 cs)" by blast
        then show ?thesis by simp
      next
        case False
        with "3.prems" nq bs obtain ch where ch: "unescape e = Some ch"
          and cc: "cons_char ch (json_chars cs) = Some (str, r)"
          by (auto split: option.splits)
        from cc obtain str' where "json_chars cs = Some (str', r)"
          using cons_char_Some by blast
        with "3.IH"(2) [OF nq bs False ch] have "length r < length cs" by blast
        then show ?thesis by simp
      qed
    next
      case nbs: False
      with "3.prems" nq have lo: "\<not> (of_char c :: nat) < 32"
        and cc: "cons_char c (json_chars (e # cs)) = Some (str, r)"
        by (auto split: if_splits)
      from cc obtain str' where "json_chars (e # cs) = Some (str', r)"
        using cons_char_Some by blast
      with "3.IH"(3) [OF nq nbs lo] have "length r < length (e # cs)" by blast
      then show ?thesis by simp
    qed
  qed
qed


lemma dropWhile_shorter: "takeWhile P xs \<noteq> [] \<Longrightarrow> length (dropWhile P xs) < length xs"
  by (cases xs) (auto simp: length_dropWhile_le less_Suc_eq_le split: if_splits)

lemma json_int_consumes: "json_int s = Some (ip, r) \<Longrightarrow> length r < length s"
  by (auto simp: json_int_def Let_def dropWhile_shorter split: if_splits)

lemma json_frac_consumes: "json_frac s = Some (fp, r) \<Longrightarrow> length r \<le> length s"
  using length_dropWhile_le [of is_digit "tl s"]
  by (auto simp: json_frac_def Let_def split: if_splits)

lemma json_exp_consumes: "json_exp s = Some (ex, r) \<Longrightarrow> length r \<le> length s"
proof -
  assume a: "json_exp s = Some (ex, r)"
  show ?thesis
  proof (cases "next_is (CHR ''e'') s \<or> next_is (CHR ''E'') s")
    case False
    with a show ?thesis by (simp add: json_exp_def)
  next
    case True
    define r2 where "r2 = (if next_is (CHR ''-'') (tl s) \<or> next_is (CHR ''+'') (tl s) then tl (tl s) else tl s)"
    from a True have "r = dropWhile is_digit r2"
      by (auto simp: json_exp_def Let_def r2_def split: if_splits)
    moreover have "length r2 \<le> length s" by (simp add: r2_def)
    ultimately show ?thesis
      using length_dropWhile_le [of is_digit r2] by simp
  qed
qed

lemma json_number_consumes: "json_number t = Some (v, r) \<Longrightarrow> length r < length t"
proof -
  assume "json_number t = Some (v, r)"
  then obtain ip r1 fp r2 ex where
    i: "json_int (if next_is (CHR ''-'') t then tl t else t) = Some (ip, r1)"
    and f: "json_frac r1 = Some (fp, r2)" and e: "json_exp r2 = Some (ex, r)"
    by (auto simp: json_number_def split: option.splits)
  from json_int_consumes [OF i] have "length r1 < length t"
    by (auto split: if_splits)
  with json_frac_consumes [OF f] json_exp_consumes [OF e] show ?thesis by simp
qed


lemma next_is_tl: "next_is c t \<Longrightarrow> length (tl t) < length t"
  by (cases t) (simp_all add: next_is_def)

lemma length_skip_ws: "length (skip_ws s) \<le> length s"
  by (simp add: skip_ws_def length_dropWhile_le)

lemma json_consumes:
  "(\<forall>s v r. json_value n s = Some (v, r) \<longrightarrow> length r < length s)
   \<and> (\<forall>s vs r. json_elements n s = Some (vs, r) \<longrightarrow> length r < length s)
   \<and> (\<forall>s ms r. json_members n s = Some (ms, r) \<longrightarrow> length r < length s)"
proof (induction n)
  case 0
  show ?case by simp
next
  case (Suc n)
  then have ihv: "\<And>s v r. json_value n s = Some (v, r) \<Longrightarrow> length r < length s"
    and ihe: "\<And>s vs r. json_elements n s = Some (vs, r) \<Longrightarrow> length r < length s"
    and ihm: "\<And>s ms r. json_members n s = Some (ms, r) \<Longrightarrow> length r < length s"
    by blast+
  have v: "length r < length s" if a: "json_value (Suc n) s = Some (v, r)" for s v r
  proof -
    define t where "t = skip_ws s"
    have ts: "length t \<le> length s" by (simp add: t_def length_skip_ws)
    consider (obj) "next_is (CHR ''{'') t"
      | (arr) "\<not> next_is (CHR ''{'') t" "next_is (CHR ''['') t"
      | (str) "\<not> next_is (CHR ''{'') t" "\<not> next_is (CHR ''['') t" "next_is (CHR 0x22) t"
      | (tru) "\<not> next_is (CHR ''{'') t" "\<not> next_is (CHR ''['') t" "\<not> next_is (CHR 0x22) t"
              "starts_with t ''true''"
      | (fls) "\<not> next_is (CHR ''{'') t" "\<not> next_is (CHR ''['') t" "\<not> next_is (CHR 0x22) t"
              "\<not> starts_with t ''true''" "starts_with t ''false''"
      | (nul) "\<not> next_is (CHR ''{'') t" "\<not> next_is (CHR ''['') t" "\<not> next_is (CHR 0x22) t"
              "\<not> starts_with t ''true''" "\<not> starts_with t ''false''" "starts_with t ''null''"
      | (num) "\<not> next_is (CHR ''{'') t" "\<not> next_is (CHR ''['') t" "\<not> next_is (CHR 0x22) t"
              "\<not> starts_with t ''true''" "\<not> starts_with t ''false''" "\<not> starts_with t ''null''"
      by blast
    then show ?thesis
    proof cases
      case obj
      then have tl: "length (tl t) < length t" by (rule next_is_tl)
      show ?thesis
      proof (cases "next_is (CHR ''}'') (skip_ws (tl t))")
        case True
        with a obj have "r = tl (skip_ws (tl t))"
          by (simp add: t_def [symmetric] Let_def)
        moreover have "length (tl (skip_ws (tl t))) \<le> length (tl t)"
          using length_skip_ws [of "tl t"] by simp
        ultimately show ?thesis using tl ts by simp
      next
        case False
        with a obj obtain ms where "json_members n (tl t) = Some (ms, r)"
          by (auto simp: t_def [symmetric] Let_def split: option.splits)
        from ihm [OF this] tl ts show ?thesis by simp
      qed
    next
      case arr
      then have tl: "length (tl t) < length t" using next_is_tl by blast
      show ?thesis
      proof (cases "next_is (CHR '']'') (skip_ws (tl t))")
        case True
        with a arr have "r = tl (skip_ws (tl t))"
          by (simp add: t_def [symmetric] Let_def)
        moreover have "length (tl (skip_ws (tl t))) \<le> length (tl t)"
          using length_skip_ws [of "tl t"] by simp
        ultimately show ?thesis using tl ts by simp
      next
        case False
        with a arr obtain vs where "json_elements n (tl t) = Some (vs, r)"
          by (auto simp: t_def [symmetric] Let_def split: option.splits)
        from ihe [OF this] tl ts show ?thesis by simp
      qed
    next
      case str
      then have tl: "length (tl t) < length t" using next_is_tl by blast
      from a str obtain x where "json_chars (tl t) = Some (x, r)"
        by (auto simp: t_def [symmetric] Let_def split: option.splits)
      from json_chars_consumes [OF this] tl ts show ?thesis by simp
    next
      case tru
      with a have "r = drop 4 t" by (simp add: t_def [symmetric] Let_def)
      moreover from tru obtain c cs where "t = c # cs" by (cases t) auto
      ultimately show ?thesis using ts by auto
    next
      case fls
      with a have "r = drop 5 t" by (simp add: t_def [symmetric] Let_def)
      moreover from fls obtain c cs where "t = c # cs" by (cases t) auto
      ultimately show ?thesis using ts by auto
    next
      case nul
      with a have "r = drop 4 t" by (simp add: t_def [symmetric] Let_def)
      moreover from nul obtain c cs where "t = c # cs" by (cases t) auto
      ultimately show ?thesis using ts by auto
    next
      case num
      with a obtain x where "json_number t = Some (x, r)"
        by (auto simp: t_def [symmetric] Let_def split: option.splits)
      from json_number_consumes [OF this] ts show ?thesis by simp
    qed
  qed
  have e: "length r < length s" if a: "json_elements (Suc n) s = Some (vs, r)" for s vs r
  proof -
    from a obtain x r0 where x: "json_value n s = Some (x, r0)"
      by (auto split: option.splits)
    define t where "t = skip_ws r0"
    have ts: "length t \<le> length r0" by (simp add: t_def length_skip_ws)
    from ihv [OF x] have r0: "length r0 < length s" .
    show ?thesis
    proof (cases "next_is (CHR '','') t")
      case True
      with a x obtain ws where "json_elements n (tl t) = Some (ws, r)"
        by (auto simp: t_def [symmetric] Let_def split: option.splits)
      from ihe [OF this] next_is_tl [OF True] ts r0 show ?thesis by simp
    next
      case False
      with a x have "next_is (CHR '']'') t" "r = tl t"
        by (auto simp: t_def [symmetric] Let_def split: if_splits)
      with ts r0 show ?thesis by simp
    qed
  qed
  have m: "length r < length s" if a: "json_members (Suc n) s = Some (ms, r)" for s ms r
  proof -
    define t where "t = skip_ws s"
    have ts: "length t \<le> length s" by (simp add: t_def length_skip_ws)
    from a have q: "next_is (CHR 0x22) t"
      by (auto simp: t_def [symmetric] Let_def split: if_splits)
    with a obtain k r0 where k: "json_chars (tl t) = Some (k, r0)"
      by (auto simp: t_def [symmetric] Let_def split: option.splits)
    define t1 where "t1 = skip_ws r0"
    have t1s: "length t1 \<le> length r0" by (simp add: t1_def length_skip_ws)
    from a q k have c: "next_is (CHR '':'') t1"
      by (auto simp: t_def [symmetric] t1_def [symmetric] Let_def split: if_splits)
    with a q k obtain x r2 where x: "json_value n (tl t1) = Some (x, r2)"
      by (auto simp: t_def [symmetric] t1_def [symmetric] Let_def split: option.splits)
    define t2 where "t2 = skip_ws r2"
    have t2s: "length t2 \<le> length r2" by (simp add: t2_def length_skip_ws)
    have chain: "length r2 < length s"
      using ihv [OF x] next_is_tl [OF c] t1s json_chars_consumes [OF k] next_is_tl [OF q] ts
      by simp
    show ?thesis
    proof (cases "next_is (CHR '','') t2")
      case True
      with a q k c x obtain ws where "json_members n (tl t2) = Some (ws, r)"
        by (auto simp: t_def [symmetric] t1_def [symmetric] t2_def [symmetric] Let_def
            split: option.splits)
      from ihm [OF this] next_is_tl [OF True] t2s chain show ?thesis by simp
    next
      case False
      with a q k c x have "r = tl t2"
        by (auto simp: t_def [symmetric] t1_def [symmetric] t2_def [symmetric] Let_def
            split: if_splits)
      with t2s chain show ?thesis by simp
    qed
  qed
  from v e m show ?case by blast
qed


lemmas json_value_consumes = json_consumes [THEN conjunct1, rule_format]

lemma json_fuel_step:
  "(\<forall>s. 2 * length s + 2 \<le> n \<longrightarrow> json_value (Suc n) s = json_value n s)
   \<and> (\<forall>s. 2 * length s + 3 \<le> n \<longrightarrow> json_elements (Suc n) s = json_elements n s)
   \<and> (\<forall>s. 2 * length s + 3 \<le> n \<longrightarrow> json_members (Suc n) s = json_members n s)"
proof (induction n)
  case 0
  show ?case by simp
next
  case (Suc n)
  then have ihv: "\<And>s. 2 * length s + 2 \<le> n \<Longrightarrow> json_value (Suc n) s = json_value n s"
    and ihe: "\<And>s. 2 * length s + 3 \<le> n \<Longrightarrow> json_elements (Suc n) s = json_elements n s"
    and ihm: "\<And>s. 2 * length s + 3 \<le> n \<Longrightarrow> json_members (Suc n) s = json_members n s"
    by blast+
  have v: "json_value (Suc (Suc n)) s = json_value (Suc n) s" if b: "2 * length s + 2 \<le> Suc n" for s
  proof -
    define t where "t = skip_ws s"
    have ts: "length t \<le> length s" by (simp add: t_def length_skip_ws)
    have inner: "2 * length (tl t) + 3 \<le> n" if "next_is c t" for c
      using next_is_tl [OF that] ts b by simp
    have mem: "next_is (CHR ''{'') t \<Longrightarrow> json_members (Suc n) (tl t) = json_members n (tl t)"
      using inner ihm by blast
    have el: "next_is (CHR ''['') t \<Longrightarrow> json_elements (Suc n) (tl t) = json_elements n (tl t)"
      using inner ihe by blast
    show ?thesis
      by (cases "next_is (CHR ''{'') t"; cases "next_is (CHR ''['') t")
         (simp_all add: json_value.simps(2) [of "Suc n" s] json_value.simps(2) [of n s]
            Let_def t_def [symmetric] mem el
            del: json_value.simps json_elements.simps json_members.simps)
  qed
  have e: "json_elements (Suc (Suc n)) s = json_elements (Suc n) s" if b: "2 * length s + 3 \<le> Suc n" for s
  proof -
    from b have "2 * length s + 2 \<le> n" by simp
    then have veq: "json_value (Suc n) s = json_value n s" by (rule ihv)
    show ?thesis
    proof (cases "json_value n s")
      case None
      with veq show ?thesis
        by (simp add: json_elements.simps(2) [of "Suc n" s] json_elements.simps(2) [of n s]
            del: json_value.simps json_elements.simps json_members.simps)
    next
      case (Some p)
      obtain x r where p: "p = (x, r)" by (cases p)
      define t where "t = skip_ws r"
      have ts: "length t \<le> length r" by (simp add: t_def length_skip_ws)
      from Some p have "length r < length s" using json_value_consumes by blast
      then have "next_is (CHR '','') t \<Longrightarrow> 2 * length (tl t) + 3 \<le> n"
        using next_is_tl [of "CHR '',''" t] ts b by simp
      then have "next_is (CHR '','') t \<Longrightarrow> json_elements (Suc n) (tl t) = json_elements n (tl t)"
        using ihe by blast
      with veq Some p show ?thesis
        by (cases "next_is (CHR '','') t")
           (simp_all add: json_elements.simps(2) [of "Suc n" s] json_elements.simps(2) [of n s]
              Let_def t_def [symmetric]
              del: json_value.simps json_elements.simps json_members.simps)
    qed
  qed
  have m: "json_members (Suc (Suc n)) s = json_members (Suc n) s" if b: "2 * length s + 3 \<le> Suc n" for s
  proof -
    define t where "t = skip_ws s"
    have ts: "length t \<le> length s" by (simp add: t_def length_skip_ws)
    note unf = json_members.simps(2) [of "Suc n" s] json_members.simps(2) [of n s]
    note [simp del] = json_value.simps json_elements.simps json_members.simps
    show ?thesis
    proof (cases "next_is (CHR 0x22) t")
      case False
      then show ?thesis by (simp add: unf Let_def t_def [symmetric])
    next
      case q: True
      show ?thesis
      proof (cases "json_chars (tl t)")
        case None
        with q show ?thesis by (simp add: unf Let_def t_def [symmetric])
      next
        case (Some p)
        obtain k r0 where p: "p = (k, r0)" by (cases p)
        define t1 where "t1 = skip_ws r0"
        have t1s: "length t1 \<le> length r0" by (simp add: t1_def length_skip_ws)
        from Some p have r0: "length r0 < length (tl t)" using json_chars_consumes by blast
        show ?thesis
        proof (cases "next_is (CHR '':'') t1")
          case False
          with q Some p show ?thesis by (simp add: unf Let_def t_def [symmetric] t1_def [symmetric])
        next
          case c: True
          have l1: "length (tl t1) + 3 \<le> length s"
            using next_is_tl [OF c] t1s r0 next_is_tl [OF q] ts by simp
          then have "2 * length (tl t1) + 2 \<le> n" using b by simp
          then have veq: "json_value (Suc n) (tl t1) = json_value n (tl t1)" by (rule ihv)
          show ?thesis
          proof (cases "json_value n (tl t1)")
            case None
            with veq q Some p c show ?thesis
              by (simp add: unf Let_def t_def [symmetric] t1_def [symmetric])
          next
            case v: (Some pv)
            obtain x r2 where pv: "pv = (x, r2)" by (cases pv)
            define t2 where "t2 = skip_ws r2"
            have t2s: "length t2 \<le> length r2" by (simp add: t2_def length_skip_ws)
            from v pv have "length r2 < length (tl t1)" using json_value_consumes by blast
            then have "next_is (CHR '','') t2 \<Longrightarrow> 2 * length (tl t2) + 3 \<le> n"
              using next_is_tl [of "CHR '',''" t2] t2s l1 b by simp
            then have "next_is (CHR '','') t2 \<Longrightarrow> json_members (Suc n) (tl t2) = json_members n (tl t2)"
              using ihm by blast
            with veq q Some p c v pv show ?thesis
              by (cases "next_is (CHR '','') t2")
                 (simp_all add: unf Let_def t_def [symmetric] t1_def [symmetric] t2_def [symmetric])
          qed
        qed
      qed
    qed
  qed
  from v e m show ?case by blast
qed

lemma json_value_fuel: "2 * length s + 2 \<le> n \<Longrightarrow> json_value (n + k) s = json_value n s"
proof (induction k)
  case 0
  show ?case by simp
next
  case (Suc k)
  then have "2 * length s + 2 \<le> n + k" by simp
  with json_fuel_step [of "n + k"] have "json_value (Suc (n + k)) s = json_value (n + k) s" by blast
  with Suc show ?case by simp
qed

lemma JSON_parse_fuel:
  "JSON_parse s =
     (case json_value (2 * length s + 2 + k) s of
        None \<Rightarrow> None
      | Some (v, r) \<Rightarrow> if skip_ws r = [] then Some v else None)"
  by (simp add: JSON_parse_def json_value_fuel [of s "2 * length s + 2" k, simplified])

end
